theory Spec2Isabelle
  imports Complex_Main "HOL-Library.AList"
begin

section \<open>The training monitor of \<^verbatim>\<open>training_monitor.py\<close>\<close>

text \<open>
  \<^verbatim>\<open>TrainingMonitor\<close> keeps one dictionary, \<^verbatim>\<open>self.training_data\<close>, and
  pushes it to the connected viewers with \<^verbatim>\<open>self.socketio.emit\<close>. The dictionary is
  dynamically typed: \<^verbatim>\<open>update_training_status\<close> stores whatever value a keyword
  argument carries. The model therefore has a type of Python values, dictionaries as
  association lists in insertion order, and every exception the methods can raise as a value.
  Values are treated as immutable: a list handed in by a caller is not shared with the caller
  afterwards.
\<close>

subsection \<open>Python values, dictionaries and exceptions\<close>

datatype pyval =
    PNone
  | PBool bool
  | PInt int
  | PFloat real
  | PStr string
  | PList "pyval list"
  | PDict "(string \<times> pyval) list"

type_synonym pydict = "(string \<times> pyval) list"

datatype error = KeyError | TypeError | AttributeError | IndexError | ZeroDivisionError

text \<open>\<^verbatim>\<open>d[k] = v\<close> keeps the position of an existing key and puts a new key last.\<close>

abbreviation dict_set :: "string \<Rightarrow> pyval \<Rightarrow> pydict \<Rightarrow> pydict" where
  "dict_set k v d \<equiv> AList.update k v d"

text \<open>\<^verbatim>\<open>k in d\<close>.\<close>

definition dict_has :: "pydict \<Rightarrow> string \<Rightarrow> bool" where
  "dict_has d k = (map_of d k \<noteq> None)"

text \<open>\<^verbatim>\<open>d.update(other)\<close>: one assignment for each item of \<^verbatim>\<open>other\<close>, in order.\<close>

definition dict_update :: "pydict \<Rightarrow> pydict \<Rightarrow> pydict" where
  "dict_update other d = fold (\<lambda>(k, v). dict_set k v) other d"

text \<open>\<^verbatim>\<open>x.append(v)\<close>: only a list has the method.\<close>

fun py_append :: "pyval \<Rightarrow> pyval \<Rightarrow> error + pyval" where
  "py_append v (PList xs) = Inr (PList (xs @ [v]))"
| "py_append v _ = Inl AttributeError"

text \<open>\<^verbatim>\<open>len(x)\<close>.\<close>

fun py_len :: "pyval \<Rightarrow> error + nat" where
  "py_len (PList xs) = Inr (length xs)"
| "py_len (PDict d) = Inr (length d)"
| "py_len (PStr s) = Inr (length s)"
| "py_len _ = Inl TypeError"

text \<open>
  \<^verbatim>\<open>x.pop(0)\<close>, the popped element dropped: a list loses its first element, an empty
  list raises IndexError, a dictionary (whose keys are strings) has no key 0, and no other
  value has the method.
\<close>

fun py_pop0 :: "pyval \<Rightarrow> error + pyval" where
  "py_pop0 (PList []) = Inl IndexError"
| "py_pop0 (PList (x # xs)) = Inr (PList xs)"
| "py_pop0 (PDict d) = Inl KeyError"
| "py_pop0 _ = Inl AttributeError"

subsection \<open>Statements on the state dictionary\<close>

text \<open>
  A statement either returns (\<open>None\<close>) or raises (\<open>Some e\<close>); in both cases it leaves a
  state behind, since Python does not undo the assignments made before an exception.
\<close>

definition seq :: "('s \<Rightarrow> error option \<times> 's) \<Rightarrow> ('s \<Rightarrow> error option \<times> 's) \<Rightarrow> 's \<Rightarrow> error option \<times> 's" where
  "seq f g s = (case f s of (None, s') \<Rightarrow> g s' | (Some e, s') \<Rightarrow> (Some e, s'))"

text \<open>\<^verbatim>\<open>d[k].method(...)\<close> for a method \<open>f\<close> that changes the object in place.\<close>

definition mutate_item :: "string \<Rightarrow> (pyval \<Rightarrow> error + pyval) \<Rightarrow> pydict \<Rightarrow> error option \<times> pydict" where
  "mutate_item k f d =
     (case map_of d k of
        None \<Rightarrow> (Some KeyError, d)
      | Some x \<Rightarrow> (case f x of Inl e \<Rightarrow> (Some e, d) | Inr x' \<Rightarrow> (None, dict_set k x' d)))"

text \<open>
  The second subscript of \<^verbatim>\<open>d[k1][k2].method(...)\<close>: a string subscript needs a
  dictionary, every other value raises TypeError.
\<close>

fun mutate_sub :: "string \<Rightarrow> (pyval \<Rightarrow> error + pyval) \<Rightarrow> pyval \<Rightarrow> error + pyval" where
  "mutate_sub k f (PDict d) =
     (case map_of d k of
        None \<Rightarrow> Inl KeyError
      | Some x \<Rightarrow> (case f x of Inl e \<Rightarrow> Inl e | Inr x' \<Rightarrow> Inr (PDict (dict_set k x' d))))"
| "mutate_sub k f _ = Inl TypeError"

text \<open>\<^verbatim>\<open>f(d[k])\<close> and \<^verbatim>\<open>f(d[k1][k2])\<close> for a function that only reads.\<close>

definition read_item :: "string \<Rightarrow> (pyval \<Rightarrow> error + 'a) \<Rightarrow> pydict \<Rightarrow> error + 'a" where
  "read_item k f d = (case map_of d k of None \<Rightarrow> Inl KeyError | Some x \<Rightarrow> f x)"

fun read_sub :: "string \<Rightarrow> (pyval \<Rightarrow> error + 'a) \<Rightarrow> pyval \<Rightarrow> error + 'a" where
  "read_sub k f (PDict d) = (case map_of d k of None \<Rightarrow> Inl KeyError | Some x \<Rightarrow> f x)"
| "read_sub k f _ = Inl TypeError"

subsection \<open>The monitor\<close>

text \<open>
  \<open>emitted\<close> is the trace of \<^verbatim>\<open>self.socketio.emit(event, payload)\<close> calls, oldest
  first, each payload as it was when it was sent.
\<close>

record monitor =
  training_data :: pydict
  emitted :: "(string \<times> pyval) list"

text \<open>\<^verbatim>\<open>TrainingMonitor.__init__\<close>.\<close>

definition init_monitor :: monitor where
  "init_monitor =
     \<lparr>training_data =
        [(''status'', PStr ''idle''),
         (''current_epoch'', PInt 0),
         (''total_epochs'', PInt 0),
         (''current_step'', PInt 0),
         (''total_steps'', PInt 0),
         (''loss'', PFloat 0),
         (''learning_rate'', PFloat 0),
         (''elapsed_time'', PInt 0),
         (''estimated_remaining'', PInt 0),
         (''model_name'', PStr ''''),
         (''dataset_size'', PInt 0),
         (''batch_size'', PInt 0),
         (''logs'', PList []),
         (''metrics_history'',
            PDict [(''loss'', PList []), (''learning_rate'', PList []), (''timestamps'', PList [])])],
      emitted = []\<rparr>"

text \<open>
  The loop over \<^verbatim>\<open>kwargs.items()\<close>: a key that is in the dictionary is overwritten,
  any other key is skipped.
\<close>

fun update_fields :: "pydict \<Rightarrow> pydict \<Rightarrow> pydict" where
  "update_fields [] td = td"
| "update_fields ((key, v) # kwargs) td =
     update_fields kwargs (if dict_has td key then dict_set key v td else td)"

text \<open>
  The block under \<^verbatim>\<open>if 'loss' in kwargs\<close>: append to the loss series and to the
  timestamps, then drop the oldest point of both once the loss series is longer than 100.
\<close>

definition keep_last_100_points :: "pydict \<Rightarrow> error option \<times> pydict" where
  "keep_last_100_points td =
     (case read_item ''metrics_history'' (read_sub ''loss'' py_len) td of
        Inl e \<Rightarrow> (Some e, td)
      | Inr n \<Rightarrow>
          if n > 100
          then seq (mutate_item ''metrics_history'' (mutate_sub ''loss'' py_pop0))
                   (mutate_item ''metrics_history'' (mutate_sub ''timestamps'' py_pop0)) td
          else (None, td))"

definition record_loss :: "pyval \<Rightarrow> string \<Rightarrow> pydict \<Rightarrow> error option \<times> pydict" where
  "record_loss l now =
     seq (mutate_item ''metrics_history'' (mutate_sub ''loss'' (py_append l)))
       (seq (mutate_item ''metrics_history'' (mutate_sub ''timestamps'' (py_append (PStr now))))
            keep_last_100_points)"

text \<open>The statement under \<^verbatim>\<open>if 'learning_rate' in kwargs\<close>: an append and nothing else.\<close>

definition record_learning_rate :: "pyval \<Rightarrow> pydict \<Rightarrow> error option \<times> pydict" where
  "record_learning_rate lr = mutate_item ''metrics_history'' (mutate_sub ''learning_rate'' (py_append lr))"

text \<open>The two \<^verbatim>\<open>if ... in kwargs\<close> blocks, in the order of the source.\<close>

definition record_metrics :: "pydict \<Rightarrow> string \<Rightarrow> pydict \<Rightarrow> error option \<times> pydict" where
  "record_metrics kwargs now =
     seq (case map_of kwargs ''loss'' of None \<Rightarrow> Pair None | Some l \<Rightarrow> record_loss l now)
         (case map_of kwargs ''learning_rate'' of None \<Rightarrow> Pair None | Some lr \<Rightarrow> record_learning_rate lr)"

text \<open>
  \<^verbatim>\<open>update_training_status(status, **kwargs)\<close>. \<open>now1\<close> and \<open>now2\<close> are the two
  readings of \<^verbatim>\<open>datetime.now().isoformat()\<close>; the second is taken only when a loss is
  supplied. The snapshot is emitted only when no statement raised.
\<close>

definition update_training_status :: "pyval \<Rightarrow> pydict \<Rightarrow> string \<Rightarrow> string \<Rightarrow> monitor \<Rightarrow> error option \<times> monitor" where
  "update_training_status status kwargs now1 now2 m =
     (let td1 = dict_set ''status'' status (training_data m);
          td2 = update_fields kwargs td1;
          td3 = dict_set ''last_update'' (PStr now1) td2
      in case record_metrics kwargs now2 td3 of
           (None, td4) \<Rightarrow>
             (None, \<lparr>training_data = td4, emitted = emitted m @ [(''status_update'', PDict td4)]\<rparr>)
         | (Some e, td4) \<Rightarrow> (Some e, \<lparr>training_data = td4, emitted = emitted m\<rparr>))"

text \<open>The two statements of \<^verbatim>\<open>add_log\<close> on the log buffer.\<close>

definition keep_last_100_logs :: "pydict \<Rightarrow> error option \<times> pydict" where
  "keep_last_100_logs td =
     (case read_item ''logs'' py_len td of
        Inl e \<Rightarrow> (Some e, td)
      | Inr n \<Rightarrow> if n > 100 then mutate_item ''logs'' py_pop0 td else (None, td))"

definition log_entry :: "pyval \<Rightarrow> pyval \<Rightarrow> string \<Rightarrow> pyval" where
  "log_entry message level now =
     PDict [(''timestamp'', PStr now), (''level'', level), (''message'', message)]"

definition append_log :: "pyval \<Rightarrow> pydict \<Rightarrow> error option \<times> pydict" where
  "append_log e = seq (mutate_item ''logs'' (py_append e)) keep_last_100_logs"

text \<open>
  \<^verbatim>\<open>add_log(message, level)\<close>; \<open>now\<close> is the clock reading of the entry. The entry is
  emitted only when no statement raised.
\<close>

definition add_log :: "pyval \<Rightarrow> pyval \<Rightarrow> string \<Rightarrow> monitor \<Rightarrow> error option \<times> monitor" where
  "add_log message level now m =
     (case append_log (log_entry message level now) (training_data m) of
        (None, td') \<Rightarrow>
          (None, \<lparr>training_data = td',
                  emitted = emitted m @ [(''log_update'', log_entry message level now)]\<rparr>)
      | (Some e, td') \<Rightarrow> (Some e, \<lparr>training_data = td', emitted = emitted m\<rparr>))"

text \<open>The default \<^verbatim>\<open>level='info'\<close>.\<close>

definition add_info :: "string \<Rightarrow> string \<Rightarrow> monitor \<Rightarrow> error option \<times> monitor" where
  "add_info message now = add_log (PStr message) (PStr ''info'') now"

text \<open>\<^verbatim>\<open>str(n)\<close> for an integer, as an f-string prints it.\<close>

fun str_nat :: "nat \<Rightarrow> string" where
  "str_nat n =
     (if n < 10 then [''0123456789'' ! n]
      else str_nat (n div 10) @ [''0123456789'' ! (n mod 10)])"

definition str_int :: "int \<Rightarrow> string" where
  "str_int i = (if i < 0 then CHR ''-'' # str_nat (nat (- i)) else str_nat (nat i))"

text \<open>
  \<^verbatim>\<open>start_training_session(model_name, total_epochs, dataset_size, batch_size)\<close>, with
  the arguments at the types every caller passes: a string and three integers. The dictionary
  literal is evaluated before \<^verbatim>\<open>update\<close> runs, so a zero batch size raises
  ZeroDivisionError with nothing changed. \<open>start_time\<close> is the reading of
  \<^verbatim>\<open>time.time()\<close>, \<open>now1\<close> and \<open>now2\<close> those of the two log entries.
\<close>

definition session_fields :: "string \<Rightarrow> int \<Rightarrow> int \<Rightarrow> int \<Rightarrow> real \<Rightarrow> pydict" where
  "session_fields model_name total_epochs dataset_size batch_size start_time =
     [(''status'', PStr ''starting''),
      (''model_name'', PStr model_name),
      (''total_epochs'', PInt total_epochs),
      (''dataset_size'', PInt dataset_size),
      (''batch_size'', PInt batch_size),
      (''current_epoch'', PInt 0),
      (''current_step'', PInt 0),
      (''total_steps'', PInt ((dataset_size div batch_size) * total_epochs)),
      (''start_time'', PFloat start_time),
      (''logs'', PList []),
      (''metrics_history'',
         PDict [(''loss'', PList []), (''learning_rate'', PList []), (''timestamps'', PList [])])]"

text \<open>The two f-strings of the start messages.\<close>

definition start_message :: "string \<Rightarrow> string" where
  "start_message model_name = ''Starting training session for '' @ model_name"

definition config_message :: "int \<Rightarrow> int \<Rightarrow> int \<Rightarrow> string" where
  "config_message total_epochs dataset_size batch_size =
     ''Total epochs: '' @ str_int total_epochs
       @ '', Dataset size: '' @ str_int dataset_size
       @ '', Batch size: '' @ str_int batch_size"

definition start_training_session ::
  "string \<Rightarrow> int \<Rightarrow> int \<Rightarrow> int \<Rightarrow> real \<Rightarrow> string \<Rightarrow> string \<Rightarrow> monitor \<Rightarrow> error option \<times> monitor" where
  "start_training_session model_name total_epochs dataset_size batch_size start_time now1 now2 m =
     (if batch_size = 0 then (Some ZeroDivisionError, m)
      else
        seq (add_info (start_message model_name) now1)
            (add_info (config_message total_epochs dataset_size batch_size) now2)
            (m\<lparr>training_data :=
                 dict_update (session_fields model_name total_epochs dataset_size batch_size start_time)
                   (training_data m)\<rparr>))"

text \<open>\<^verbatim>\<open>finish_training_session()\<close>: the two calls of its body, one after the other.\<close>

definition finish_training_session :: "string \<Rightarrow> string \<Rightarrow> string \<Rightarrow> monitor \<Rightarrow> error option \<times> monitor" where
  "finish_training_session now1 now2 now3 =
     seq (update_training_status (PStr ''completed'') [] now1 now2)
         (add_info ''Training session completed!'' now3)"

subsection \<open>Sequences of producer calls\<close>

text \<open>
  A producer calls the four methods one after the other. A caller may catch an exception
  and go on, so every call runs on the state its predecessor left, and the outcome of each
  call is kept.
\<close>

datatype call =
    Start string int int int real string string
  | Update pyval pydict string string
  | AddLog pyval pyval string
  | Finish string string string

fun perform :: "call \<Rightarrow> monitor \<Rightarrow> error option \<times> monitor" where
  "perform (Start model_name total_epochs dataset_size batch_size t now1 now2) m =
     start_training_session model_name total_epochs dataset_size batch_size t now1 now2 m"
| "perform (Update status kwargs now1 now2) m = update_training_status status kwargs now1 now2 m"
| "perform (AddLog message level now) m = add_log message level now m"
| "perform (Finish now1 now2 now3) m = finish_training_session now1 now2 now3 m"

fun run :: "call list \<Rightarrow> monitor \<Rightarrow> error option list \<times> monitor" where
  "run [] m = ([], m)"
| "run (c # cs) m =
     (case perform c m of (e, m') \<Rightarrow> (case run cs m' of (es, m'') \<Rightarrow> (e # es, m'')))"

subsection \<open>Reading the state\<close>

definition get_field :: "string \<Rightarrow> monitor \<Rightarrow> pyval option" where
  "get_field k m = map_of (training_data m) k"

definition series :: "string \<Rightarrow> monitor \<Rightarrow> pyval option" where
  "series k m =
     (case map_of (training_data m) ''metrics_history'' of
        Some (PDict mh) \<Rightarrow> map_of mh k
      | _ \<Rightarrow> None)"

text \<open>Every key that \<^verbatim>\<open>__init__\<close> puts into the dictionary is (still) there.\<close>

definition snapshot_keys_present :: "monitor \<Rightarrow> bool" where
  "snapshot_keys_present m =
     list_all (dict_has (training_data m)) (map fst (training_data init_monitor))"

text \<open>The three history series are lists, as \<^verbatim>\<open>__init__\<close> and a session start make them.\<close>

fun is_list :: "pyval option \<Rightarrow> bool" where
  "is_list (Some (PList xs)) = True"
| "is_list _ = False"

definition history_ok :: "monitor \<Rightarrow> bool" where
  "history_ok m =
     (is_list (series ''loss'' m) \<and> is_list (series ''learning_rate'' m)
      \<and> is_list (series ''timestamps'' m))"

text \<open>The log calls of a list of (message, level, clock reading) triples.\<close>

definition log_calls :: "(pyval \<times> pyval \<times> string) list \<Rightarrow> call list" where
  "log_calls es = map (\<lambda>(message, level, now). AddLog message level now) es"

definition log_entries :: "(pyval \<times> pyval \<times> string) list \<Rightarrow> pyval list" where
  "log_entries es = map (\<lambda>(message, level, now). log_entry message level now) es"

text \<open>
  The specification's wording of finishing a session: \<open>updateStatus('completed')\<close>, and, when
  that has returned, \<open>appendLog("Training session completed!")\<close> at the default level.
\<close>

definition finishSession_spec :: "string \<Rightarrow> string \<Rightarrow> string \<Rightarrow> monitor \<Rightarrow> error option \<times> monitor" where
  "finishSession_spec now1 now2 now3 m =
     (case update_training_status (PStr ''completed'') [] now1 now2 m of
        (None, m1) \<Rightarrow> add_log (PStr ''Training session completed!'') (PStr ''info'') now3 m1
      | (Some e, m1) \<Rightarrow> (Some e, m1))"

text \<open>
  The epoch invariant of the data model: both counters are integers, neither is negative,
  and the current epoch does not exceed the total.
\<close>

definition epochs_in_order :: "monitor \<Rightarrow> bool" where
  "epochs_in_order m =
     (case (get_field ''current_epoch'' m, get_field ''total_epochs'' m) of
        (Some (PInt c), Some (PInt t)) \<Rightarrow> 0 \<le> c \<and> c \<le> t
      | _ \<Rightarrow> False)"

text \<open>
  A keyword dictionary that keeps the invariant for a session of \<open>n\<close> epochs: it does
  not touch \<open>total_epochs\<close>, and a \<open>current_epoch\<close> it carries is an integer from 0 to
  \<open>n\<close>.
\<close>

definition epoch_kwargs :: "int \<Rightarrow> pydict \<Rightarrow> bool" where
  "epoch_kwargs n kwargs =
     list_all (\<lambda>(k, v). k \<noteq> ''total_epochs'' \<and>
                 (k = ''current_epoch'' \<longrightarrow> (case v of PInt c \<Rightarrow> 0 \<le> c \<and> c \<le> n | _ \<Rightarrow> False)))
       kwargs"

fun epoch_call :: "int \<Rightarrow> call \<Rightarrow> bool" where
  "epoch_call n (Update status kwargs now1 now2) = epoch_kwargs n kwargs"
| "epoch_call n (AddLog message level now) = True"
| "epoch_call n (Finish now1 now2 now3) = True"
| "epoch_call n (Start model_name total_epochs dataset_size batch_size t now1 now2) = False"

text \<open>The two entries a session start logs.\<close>

definition start_messages :: "string \<Rightarrow> int \<Rightarrow> int \<Rightarrow> int \<Rightarrow> string \<Rightarrow> string \<Rightarrow> pyval list" where
  "start_messages model_name total_epochs dataset_size batch_size now1 now2 =
     [log_entry (PStr (start_message model_name)) (PStr ''info'') now1,
      log_entry (PStr (config_message total_epochs dataset_size batch_size)) (PStr ''info'') now2]"

text \<open>The three series after the two blocks, as the keyword arguments determine them.\<close>

definition loss_after :: "pydict \<Rightarrow> pyval list \<Rightarrow> pyval list" where
  "loss_after kwargs ls =
     (case map_of kwargs ''loss'' of
        None \<Rightarrow> ls
      | Some l \<Rightarrow> if length ls < 100 then ls @ [l] else tl (ls @ [l]))"

definition timestamps_after :: "pydict \<Rightarrow> string \<Rightarrow> pyval list \<Rightarrow> pyval list \<Rightarrow> pyval list" where
  "timestamps_after kwargs now ls ts =
     (case map_of kwargs ''loss'' of
        None \<Rightarrow> ts
      | Some l \<Rightarrow> if length ls < 100 then ts @ [PStr now] else tl (ts @ [PStr now]))"

definition learning_rate_after :: "pydict \<Rightarrow> pyval list \<Rightarrow> pyval list" where
  "learning_rate_after kwargs lrs =
     (case map_of kwargs ''learning_rate'' of None \<Rightarrow> lrs | Some lr \<Rightarrow> lrs @ [lr])"

text \<open>
  The state of a session of \<open>n\<close> epochs in which the invariant holds: the total is \<open>n\<close>
  and the current epoch is an integer from 0 to \<open>n\<close>.
\<close>

definition epochs_within :: "int \<Rightarrow> monitor \<Rightarrow> bool" where
  "epochs_within n m =
     (get_field ''total_epochs'' m = Some (PInt n)
      \<and> (case get_field ''current_epoch'' m of Some (PInt c) \<Rightarrow> 0 \<le> c \<and> c \<le> n | _ \<Rightarrow> False))"

section \<open>Properties\<close>

subsection \<open>Sequencing and single statements\<close>

lemma seq_frame:
  assumes "\<And>s. P (snd (f s)) = P s" and "\<And>s. P (snd (g s)) = P s"
  shows "P (snd (seq f g s)) = P s"
proof (cases "f s")
  case (Pair e s')
  then show ?thesis using assms(1)[of s] assms(2)[of s']
    by (cases e) (simp_all add: seq_def)
qed

lemma mutate_item_ok:
  "map_of d k = Some x \<Longrightarrow> f x = Inr x' \<Longrightarrow> mutate_item k f d = (None, dict_set k x' d)"
  by (simp add: mutate_item_def)

lemma mutate_item_frame:
  "k' \<noteq> k \<Longrightarrow> map_of (snd (mutate_item k f d)) k' = map_of d k'"
  by (simp add: mutate_item_def update_conv' split: option.splits sum.splits)

lemma mutate_item_has: "dict_has (snd (mutate_item k f d)) k' = dict_has d k'"
  by (auto simp add: mutate_item_def dict_has_def update_conv' split: option.splits sum.splits)

subsection \<open>The log buffer\<close>

lemma keep_last_100_logs_frame:
  "k \<noteq> ''logs'' \<Longrightarrow> map_of (snd (keep_last_100_logs td)) k = map_of td k"
  by (simp add: keep_last_100_logs_def mutate_item_frame split: sum.splits)

lemma keep_last_100_logs_has: "dict_has (snd (keep_last_100_logs td)) k = dict_has td k"
  by (simp add: keep_last_100_logs_def mutate_item_has split: sum.splits)

lemma append_log_list:
  assumes "map_of td ''logs'' = Some (PList xs)"
  shows "append_log e td
           = (None, dict_set ''logs'' (PList (if length xs < 100 then xs @ [e] else tl (xs @ [e]))) td)"
proof -
  have 1: "mutate_item ''logs'' (py_append e) td = (None, dict_set ''logs'' (PList (xs @ [e])) td)"
    using assms by (simp add: mutate_item_ok)
  have 2: "keep_last_100_logs (dict_set ''logs'' (PList (xs @ [e])) td)
             = (None, dict_set ''logs'' (PList (if length xs < 100 then xs @ [e] else tl (xs @ [e]))) td)"
    by (cases xs) (simp_all add: keep_last_100_logs_def read_item_def mutate_item_def update_conv')
  show ?thesis by (simp add: append_log_def seq_def 1 2)
qed

lemma append_log_frame: "k \<noteq> ''logs'' \<Longrightarrow> map_of (snd (append_log e td)) k = map_of td k"
  unfolding append_log_def
  by (rule seq_frame[where P = "\<lambda>d. map_of d k"]) (simp_all add: mutate_item_frame keep_last_100_logs_frame)

lemma append_log_has: "dict_has (snd (append_log e td)) k = dict_has td k"
  unfolding append_log_def
  by (rule seq_frame[where P = "\<lambda>d. dict_has d k"]) (simp_all add: mutate_item_has keep_last_100_logs_has)

lemma training_data_add_log:
  "training_data (snd (add_log message level now m))
     = snd (append_log (log_entry message level now) (training_data m))"
  by (simp add: add_log_def split: prod.splits option.splits)

lemma add_log_list:
  assumes "get_field ''logs'' m = Some (PList xs)"
  shows "add_log message level now m =
           (None, \<lparr>training_data =
                     dict_set ''logs''
                       (PList (if length xs < 100 then xs @ [log_entry message level now]
                               else tl (xs @ [log_entry message level now])))
                       (training_data m),
                   emitted = emitted m @ [(''log_update'', log_entry message level now)]\<rparr>)"
  using assms by (simp add: add_log_def get_field_def append_log_list)

lemma add_log_frame:
  "k \<noteq> ''logs'' \<Longrightarrow> get_field k (snd (add_log message level now m)) = get_field k m"
  by (simp add: get_field_def training_data_add_log append_log_frame)

lemma add_log_has:
  "dict_has (training_data (snd (add_log message level now m))) k = dict_has (training_data m) k"
  by (simp add: training_data_add_log append_log_has)

lemma append_log_raises:
  "map_of td ''logs'' = Some x \<Longrightarrow> py_append e x = Inl err \<Longrightarrow> append_log e td = (Some err, td)"
  by (simp add: append_log_def seq_def mutate_item_def)

lemma add_log_raises:
  assumes "get_field ''logs'' m = Some x" and "py_append (log_entry message level now) x = Inl err"
  shows "add_log message level now m = (Some err, m)"
  using assms by (simp add: add_log_def get_field_def append_log_raises)

subsection \<open>Starting a session\<close>

lemma session_fields_lookup:
  "map_of (dict_update (session_fields model_name total_epochs dataset_size batch_size t) td) ''logs''
     = Some (PList [])"
  "map_of (dict_update (session_fields model_name total_epochs dataset_size batch_size t) td) ''metrics_history''
     = Some (PDict [(''loss'', PList []), (''learning_rate'', PList []), (''timestamps'', PList [])])"
  "map_of (dict_update (session_fields model_name total_epochs dataset_size batch_size t) td) ''total_steps''
     = Some (PInt ((dataset_size div batch_size) * total_epochs))"
  "map_of (dict_update (session_fields model_name total_epochs dataset_size batch_size t) td) ''total_epochs''
     = Some (PInt total_epochs)"
  "map_of (dict_update (session_fields model_name total_epochs dataset_size batch_size t) td) ''current_epoch''
     = Some (PInt 0)"
  by (simp_all add: dict_update_def session_fields_def update_conv')

lemma start_training_session_result:
  assumes "batch_size \<noteq> 0"
  shows "start_training_session model_name total_epochs dataset_size batch_size t now1 now2 m =
           (None,
            \<lparr>training_data =
               dict_set ''logs''
                 (PList (start_messages model_name total_epochs dataset_size batch_size now1 now2))
                 (dict_update (session_fields model_name total_epochs dataset_size batch_size t)
                    (training_data m)),
             emitted = emitted m @
               map (Pair ''log_update'')
                 (start_messages model_name total_epochs dataset_size batch_size now1 now2)\<rparr>)"
proof -
  let ?m0 = "m\<lparr>training_data :=
                dict_update (session_fields model_name total_epochs dataset_size batch_size t)
                  (training_data m)\<rparr>"
  let ?e1 = "log_entry (PStr (start_message model_name)) (PStr ''info'') now1"
  have l0: "get_field ''logs'' ?m0 = Some (PList [])"
    by (simp add: get_field_def session_fields_lookup)
  have s1: "add_info (start_message model_name) now1 ?m0
              = (None, \<lparr>training_data = dict_set ''logs'' (PList [?e1]) (training_data ?m0),
                        emitted = emitted m @ [(''log_update'', ?e1)]\<rparr>)"
    using add_log_list[OF l0, of "PStr (start_message model_name)" "PStr ''info''" now1]
    unfolding add_info_def by simp
  let ?m1 = "\<lparr>training_data = dict_set ''logs'' (PList [?e1]) (training_data ?m0),
              emitted = emitted m @ [(''log_update'', ?e1)]\<rparr>"
  have l1: "get_field ''logs'' ?m1 = Some (PList [?e1])"
    by (simp add: get_field_def update_conv')
  have s2: "add_info (config_message total_epochs dataset_size batch_size) now2 ?m1
              = (None, \<lparr>training_data =
                         dict_set ''logs''
                           (PList (start_messages model_name total_epochs dataset_size batch_size now1 now2))
                           (training_data ?m0),
                        emitted = emitted m @
                          map (Pair ''log_update'')
                            (start_messages model_name total_epochs dataset_size batch_size now1 now2)\<rparr>)"
    using add_log_list[OF l1, of "PStr (config_message total_epochs dataset_size batch_size)" "PStr ''info''" now2]
    unfolding add_info_def by (simp add: start_messages_def)
  show ?thesis
    using assms s1 s2 unfolding start_training_session_def
    by (simp add: seq_def)
qed

text \<open>
  Claim C10. When \<open>start_training_session\<close> returns (the batch size is not zero, so the
  division does not raise), the log buffer is not empty: it holds exactly two entries, the
  first with the message "Starting training session for" and the model name, the second
  with the message that reports the epochs, the dataset size and the batch size; both are
  at level info, and each was emitted as a \<open>log_update\<close>, in this order, after everything
  emitted before the call.
\<close>

theorem start_training_session_logs_two_entries:
  assumes "batch_size \<noteq> 0"
  shows "fst (start_training_session model_name total_epochs dataset_size batch_size t now1 now2 m) = None
       \<and> get_field ''logs''
             (snd (start_training_session model_name total_epochs dataset_size batch_size t now1 now2 m))
           = Some (PList
              [log_entry (PStr (''Starting training session for '' @ model_name)) (PStr ''info'') now1,
               log_entry (PStr (''Total epochs: '' @ str_int total_epochs
                                  @ '', Dataset size: '' @ str_int dataset_size
                                  @ '', Batch size: '' @ str_int batch_size)) (PStr ''info'') now2])
       \<and> emitted (snd (start_training_session model_name total_epochs dataset_size batch_size t now1 now2 m))
           = emitted m @
              [(''log_update'',
                  log_entry (PStr (''Starting training session for '' @ model_name)) (PStr ''info'') now1),
               (''log_update'',
                  log_entry (PStr (''Total epochs: '' @ str_int total_epochs
                                     @ '', Dataset size: '' @ str_int dataset_size
                                     @ '', Batch size: '' @ str_int batch_size)) (PStr ''info'') now2)]"
  unfolding start_training_session_result[OF assms]
  by (simp add: get_field_def update_conv' start_messages_def start_message_def config_message_def)

theorem start_training_session_logs_two_entries_witness:
  "(32::int) \<noteq> 0
   \<and> fst (start_training_session ''demo'' 5 1000 32 0 ''t1'' ''t2'' init_monitor) = None
   \<and> get_field ''logs'' (snd (start_training_session ''demo'' 5 1000 32 0 ''t1'' ''t2'' init_monitor))
      = Some (PList
          [PDict [(''timestamp'', PStr ''t1''), (''level'', PStr ''info''),
                  (''message'', PStr ''Starting training session for demo'')],
           PDict [(''timestamp'', PStr ''t2''), (''level'', PStr ''info''),
                  (''message'', PStr ''Total epochs: 5, Dataset size: 1000, Batch size: 32'')]])"
  using start_training_session_logs_two_entries[of 32 "''demo''" 5 1000 0 "''t1''" "''t2''" init_monitor]
  by (simp add: log_entry_def str_int_def)

subsection \<open>Metric history statements\<close>

lemma keep_last_100_points_frame:
  "k \<noteq> ''metrics_history'' \<Longrightarrow> map_of (snd (keep_last_100_points td)) k = map_of td k"
proof -
  assume k: "k \<noteq> ''metrics_history''"
  have "map_of (snd (seq (mutate_item ''metrics_history'' (mutate_sub ''loss'' py_pop0))
                   (mutate_item ''metrics_history'' (mutate_sub ''timestamps'' py_pop0)) td)) k
          = map_of td k"
    by (rule seq_frame[where P = "\<lambda>d. map_of d k"]) (simp_all add: mutate_item_frame k)
  then show ?thesis
    by (simp add: keep_last_100_points_def split: sum.splits)
qed

lemma record_loss_frame:
  assumes "k \<noteq> ''metrics_history''"
  shows "map_of (snd (record_loss l now td)) k = map_of td k"
  unfolding record_loss_def
  by (intro seq_frame[where P = "\<lambda>d. map_of d k"])
     (simp_all add: mutate_item_frame keep_last_100_points_frame assms)

lemma record_learning_rate_frame:
  "k \<noteq> ''metrics_history'' \<Longrightarrow> map_of (snd (record_learning_rate lr td)) k = map_of td k"
  by (simp add: record_learning_rate_def mutate_item_frame)

lemma record_metrics_frame:
  assumes "k \<noteq> ''metrics_history''"
  shows "map_of (snd (record_metrics kwargs now td)) k = map_of td k"
  unfolding record_metrics_def
proof (rule seq_frame[where P = "\<lambda>d. map_of d k"])
  show "map_of (snd ((case map_of kwargs ''loss'' of None \<Rightarrow> Pair None | Some l \<Rightarrow> record_loss l now) s)) k
          = map_of s k" for s
    by (cases "map_of kwargs ''loss''") (simp_all add: record_loss_frame assms)
  show "map_of (snd ((case map_of kwargs ''learning_rate'' of None \<Rightarrow> Pair None
                      | Some lr \<Rightarrow> record_learning_rate lr) s)) k = map_of s k" for s
    by (cases "map_of kwargs ''learning_rate''") (simp_all add: record_learning_rate_frame assms)
qed

lemma record_metrics_none:
  "map_of kwargs ''loss'' = None \<Longrightarrow> map_of kwargs ''learning_rate'' = None
     \<Longrightarrow> record_metrics kwargs now td = (None, td)"
  by (simp add: record_metrics_def seq_def)

lemma training_data_update_training_status:
  "training_data (snd (update_training_status status kwargs now1 now2 m))
     = snd (record_metrics kwargs now2
              (dict_set ''last_update'' (PStr now1)
                 (update_fields kwargs (dict_set ''status'' status (training_data m)))))"
  by (simp add: update_training_status_def Let_def split: prod.splits option.splits)

lemma update_training_status_field:
  assumes "k \<noteq> ''metrics_history''"
  shows "get_field k (snd (update_training_status status kwargs now1 now2 m))
           = map_of (dict_set ''last_update'' (PStr now1)
                       (update_fields kwargs (dict_set ''status'' status (training_data m)))) k"
  by (simp add: get_field_def training_data_update_training_status record_metrics_frame assms)

lemma update_training_status_last_update:
  "get_field ''last_update'' (snd (update_training_status status kwargs now1 now2 m)) = Some (PStr now1)"
  by (simp add: update_training_status_field update_conv')

lemma update_training_status_no_kwargs:
  "update_training_status status [] now1 now2 m =
     (None,
      \<lparr>training_data = dict_set ''last_update'' (PStr now1) (dict_set ''status'' status (training_data m)),
       emitted = emitted m @
         [(''status_update'',
           PDict (dict_set ''last_update'' (PStr now1) (dict_set ''status'' status (training_data m))))]\<rparr>)"
  by (simp add: update_training_status_def record_metrics_none Let_def)

lemma update_training_status_no_metrics:
  assumes "map_of kwargs ''loss'' = None" and "map_of kwargs ''learning_rate'' = None"
  shows "fst (update_training_status status kwargs now1 now2 m) = None"
  by (simp add: update_training_status_def Let_def record_metrics_none[OF assms])

subsection \<open>Log entries and the last update\<close>

text \<open>
  Claim C5 says that \<open>add_log\<close> appends an entry on every state. It does not: the log
  buffer can be overwritten through a keyword argument, and after
  \<open>update_training_status('training', logs=5)\<close>, which returns, \<open>add_log\<close> raises
  AttributeError and the value under \<open>logs\<close> is still 5.
\<close>

theorem add_log_raises_on_overwritten_logs:
  "fst (update_training_status (PStr ''training'') [(''logs'', PInt 5)] ''t1'' ''t2'' init_monitor) = None
   \<and> fst (add_log (PStr ''hello'') (PStr ''info'') ''t3''
           (snd (update_training_status (PStr ''training'') [(''logs'', PInt 5)] ''t1'' ''t2'' init_monitor)))
       = Some AttributeError
   \<and> get_field ''logs''
        (snd (add_log (PStr ''hello'') (PStr ''info'') ''t3''
           (snd (update_training_status (PStr ''training'') [(''logs'', PInt 5)] ''t1'' ''t2'' init_monitor))))
       = Some (PInt 5)"
proof -
  let ?m = "snd (update_training_status (PStr ''training'') [(''logs'', PInt 5)] ''t1'' ''t2'' init_monitor)"
  have ok: "fst (update_training_status (PStr ''training'') [(''logs'', PInt 5)] ''t1'' ''t2'' init_monitor) = None"
    by (rule update_training_status_no_metrics) simp_all
  have l: "get_field ''logs'' ?m = Some (PInt 5)"
    by (simp add: update_training_status_field update_conv' init_monitor_def dict_has_def)
  have r: "add_log (PStr ''hello'') (PStr ''info'') ''t3'' ?m = (Some AttributeError, ?m)"
    by (rule add_log_raises[OF l]) simp
  show ?thesis
    unfolding r using ok l by simp
qed

text \<open>
  Claim C5, amended. On a state whose log buffer is a list, \<open>add_log\<close> returns, puts one
  entry with the timestamp, the level and the message at the end of the buffer (dropping the
  oldest entry when the buffer was full), and leaves every other key of the snapshot as it
  was, the last update among them; \<open>update_training_status\<close>, on any state and with any
  keyword arguments, sets the last update to its first clock reading. Every value of the
  embedding is its own copy, so the statement is about states in which the list of the log
  buffer is not at the same time the value, or part of the value, of another key.
\<close>

theorem add_log_keeps_snapshot_update_sets_last_update:
  assumes "get_field ''logs'' m = Some (PList xs)"
  shows "fst (add_log message level now m) = None
       \<and> get_field ''logs'' (snd (add_log message level now m))
           = Some (PList (if length xs < 100 then xs @ [log_entry message level now]
                          else tl (xs @ [log_entry message level now])))
       \<and> (\<forall>k. k \<noteq> ''logs'' \<longrightarrow> get_field k (snd (add_log message level now m)) = get_field k m)
       \<and> get_field ''last_update'' (snd (add_log message level now m)) = get_field ''last_update'' m
       \<and> get_field ''last_update'' (snd (update_training_status status kwargs now1 now2 m'))
           = Some (PStr now1)"
  by (simp add: add_log_list[OF assms] update_training_status_last_update)
     (simp add: get_field_def update_conv')

theorem add_log_keeps_snapshot_update_sets_last_update_witness:
  "get_field ''logs'' (snd (update_training_status (PStr ''training'') [] ''t0'' ''t0'' init_monitor))
     = Some (PList [])
   \<and> get_field ''last_update'' (snd (update_training_status (PStr ''training'') [] ''t0'' ''t0'' init_monitor))
     = Some (PStr ''t0'')
   \<and> fst (add_log (PStr ''hello'') (PStr ''info'') ''t1''
           (snd (update_training_status (PStr ''training'') [] ''t0'' ''t0'' init_monitor))) = None
   \<and> get_field ''logs''
        (snd (add_log (PStr ''hello'') (PStr ''info'') ''t1''
           (snd (update_training_status (PStr ''training'') [] ''t0'' ''t0'' init_monitor))))
       = Some (PList [PDict [(''timestamp'', PStr ''t1''), (''level'', PStr ''info''), (''message'', PStr ''hello'')]])
   \<and> get_field ''last_update''
        (snd (add_log (PStr ''hello'') (PStr ''info'') ''t1''
           (snd (update_training_status (PStr ''training'') [] ''t0'' ''t0'' init_monitor))))
       = Some (PStr ''t0'')
   \<and> get_field ''status''
        (snd (add_log (PStr ''hello'') (PStr ''info'') ''t1''
           (snd (update_training_status (PStr ''training'') [] ''t0'' ''t0'' init_monitor))))
       = Some (PStr ''training'')
   \<and> get_field ''last_update''
        (snd (update_training_status (PStr ''training'') [(''loss'', PFloat 2)] ''t2'' ''t3''
           (snd (update_training_status (PStr ''training'') [] ''t0'' ''t0'' init_monitor))))
       = Some (PStr ''t2'')"
proof -
  let ?m = "snd (update_training_status (PStr ''training'') [] ''t0'' ''t0'' init_monitor)"
  have h: "get_field ''logs'' ?m = Some (PList [])"
    and lu: "get_field ''last_update'' ?m = Some (PStr ''t0'')"
    and st: "get_field ''status'' ?m = Some (PStr ''training'')"
    by (simp_all add: update_training_status_no_kwargs get_field_def update_conv' init_monitor_def)
  note c = add_log_keeps_snapshot_update_sets_last_update[OF h,
      of "PStr ''hello''" "PStr ''info''" "''t1''" "PStr ''training''" "[(''loss'', PFloat 2)]" "''t2''" "''t3''" ?m]
  from c have f: "fst (add_log (PStr ''hello'') (PStr ''info'') ''t1'' ?m) = None"
    and fr: "\<forall>k. k \<noteq> ''logs'' \<longrightarrow>
               get_field k (snd (add_log (PStr ''hello'') (PStr ''info'') ''t1'' ?m)) = get_field k ?m"
    and u: "get_field ''last_update''
        (snd (update_training_status (PStr ''training'') [(''loss'', PFloat 2)] ''t2'' ''t3'' ?m))
       = Some (PStr ''t2'')"
    by blast+
  from c have "get_field ''logs'' (snd (add_log (PStr ''hello'') (PStr ''info'') ''t1'' ?m))
       = Some (PList [PDict [(''timestamp'', PStr ''t1''), (''level'', PStr ''info''), (''message'', PStr ''hello'')]])"
    by (simp add: log_entry_def)
  moreover from fr lu st have "get_field ''last_update'' (snd (add_log (PStr ''hello'') (PStr ''info'') ''t1'' ?m))
       = Some (PStr ''t0'')"
    and "get_field ''status'' (snd (add_log (PStr ''hello'') (PStr ''info'') ''t1'' ?m))
       = Some (PStr ''training'')"
    by simp_all
  ultimately show ?thesis using h lu f u by blast
qed

subsection \<open>The bounded log buffer\<close>

lemma run_Cons:
  "run (c # cs) m
     = (fst (perform c m) # fst (run cs (snd (perform c m))), snd (run cs (snd (perform c m))))"
  by (simp split: prod.splits)

lemma drop_after_push:
  assumes "length xs \<le> 100"
  shows "drop (length (if length xs < 100 then xs @ [e] else tl (xs @ [e])) + n - 100)
              ((if length xs < 100 then xs @ [e] else tl (xs @ [e])) @ ys)
           = drop (length xs + Suc n - 100) (xs @ e # ys)"
proof (cases "length xs < 100")
  case True
  then show ?thesis by simp
next
  case False
  with assms have len: "length xs = 100" by simp
  then have ne: "xs \<noteq> []" by auto
  have "drop (length xs + Suc n - 100) (xs @ e # ys) = drop (Suc n) (xs @ e # ys)"
    using len by simp
  also have "\<dots> = drop n (tl (xs @ e # ys))"
    by (rule drop_Suc)
  also have "tl (xs @ e # ys) = (tl xs @ [e]) @ ys"
    using ne by simp
  finally show ?thesis
    using len ne by simp
qed

lemma run_log_calls:
  assumes "get_field ''logs'' m = Some (PList xs)" and "length xs \<le> 100"
  shows "fst (run (log_calls es) m) = replicate (length es) None
       \<and> get_field ''logs'' (snd (run (log_calls es) m))
           = Some (PList (drop (length xs + length es - 100) (xs @ log_entries es)))"
  using assms
proof (induction es arbitrary: m xs)
  case Nil
  then show ?case by (simp add: log_calls_def log_entries_def)
next
  case (Cons a es)
  obtain message level now where a: "a = (message, level, now)" by (cases a)
  let ?e = "log_entry message level now"
  let ?xs1 = "if length xs < 100 then xs @ [?e] else tl (xs @ [?e])"
  let ?m1 = "snd (add_log message level now m)"
  have step: "fst (add_log message level now m) = None"
    by (simp add: add_log_list[OF Cons.prems(1)])
  have l1: "get_field ''logs'' ?m1 = Some (PList ?xs1)"
    by (simp add: add_log_list[OF Cons.prems(1)] get_field_def update_conv')
  have n1: "length ?xs1 \<le> 100" using Cons.prems(2) by simp
  note ih = Cons.IH[OF l1 n1]
  have runs: "run (log_calls (a # es)) m
                = (None # fst (run (log_calls es) ?m1), snd (run (log_calls es) ?m1))"
    using step unfolding log_calls_def list.map run_Cons by (simp add: a)
  have lists: "drop (length ?xs1 + length es - 100) (?xs1 @ log_entries es)
                 = drop (length xs + length (a # es) - 100) (xs @ log_entries (a # es))"
    using drop_after_push[OF Cons.prems(2), of ?e "length es" "log_entries es"]
    by (simp add: log_entries_def a)
  show ?case using ih lists by (simp add: runs)
qed

text \<open>
  Claim C6. Starting from an empty log buffer, more than 100 \<open>add_log\<close> calls all return,
  and the buffer then holds exactly 100 entries: those of the last 100 calls, in the order of
  the calls.
\<close>

theorem log_buffer_keeps_last_100:
  assumes "get_field ''logs'' m = Some (PList [])" and "length es > 100"
  shows "fst (run (log_calls es) m) = replicate (length es) None
       \<and> get_field ''logs'' (snd (run (log_calls es) m))
           = Some (PList (log_entries (drop (length es - 100) es)))
       \<and> length (log_entries (drop (length es - 100) es)) = 100"
  using run_log_calls[OF assms(1), of es] assms(2)
  by (simp add: log_entries_def drop_map)

theorem log_buffer_keeps_last_100_witness:
  "get_field ''logs'' init_monitor = Some (PList [])
   \<and> length (map (\<lambda>i. (PInt (int i), PStr ''info'', ''t'')) [0..<103]) > 100
   \<and> get_field ''logs''
        (snd (run (log_calls (map (\<lambda>i. (PInt (int i), PStr ''info'', ''t'')) [0..<103])) init_monitor))
       = Some (PList (map (\<lambda>i. log_entry (PInt (int i)) (PStr ''info'') ''t'') [3..<103]))"
  using log_buffer_keeps_last_100[of init_monitor "map (\<lambda>i. (PInt (int i), PStr ''info'', ''t'')) [0..<103]"]
  by (simp add: get_field_def init_monitor_def log_entries_def drop_map comp_def)

subsection \<open>The reset at a session start\<close>

text \<open>
  Claim C2 says that a session start leaves the log buffer empty. It does not: started on the
  fresh monitor with a dataset of 500, batches of 16 and 3 epochs, the call leaves a log
  buffer that is not the empty list.
\<close>

theorem start_training_session_logs_not_empty:
  "get_field ''logs'' (snd (start_training_session ''demo'' 3 500 16 0 ''t1'' ''t2'' init_monitor))
     \<noteq> Some (PList [])"
  by (simp add: start_training_session_result get_field_def update_conv' start_messages_def)

text \<open>
  Claim C2, amended. From every prior state, a session start with a batch size other than
  zero returns; afterwards nothing of the earlier logs and metric history is left: the three
  history series are empty, the log buffer holds the two entries the call itself logs and no
  other, and \<open>total_steps\<close> is the floor of dataset size by batch size, times the epochs.
\<close>

theorem start_training_session_resets_history:
  assumes "batch_size \<noteq> 0"
  shows "fst (start_training_session model_name total_epochs dataset_size batch_size t now1 now2 m) = None
       \<and> get_field ''logs''
             (snd (start_training_session model_name total_epochs dataset_size batch_size t now1 now2 m))
           = Some (PList (start_messages model_name total_epochs dataset_size batch_size now1 now2))
       \<and> series ''loss''
             (snd (start_training_session model_name total_epochs dataset_size batch_size t now1 now2 m))
           = Some (PList [])
       \<and> series ''learning_rate''
             (snd (start_training_session model_name total_epochs dataset_size batch_size t now1 now2 m))
           = Some (PList [])
       \<and> series ''timestamps''
             (snd (start_training_session model_name total_epochs dataset_size batch_size t now1 now2 m))
           = Some (PList [])
       \<and> get_field ''total_steps''
             (snd (start_training_session model_name total_epochs dataset_size batch_size t now1 now2 m))
           = Some (PInt ((dataset_size div batch_size) * total_epochs))"
  unfolding start_training_session_result[OF assms]
  by (simp add: get_field_def series_def update_conv' session_fields_lookup)

theorem start_training_session_resets_history_witness:
  "(16::int) \<noteq> 0
   \<and> get_field ''total_steps''
        (snd (start_training_session ''demo'' 3 500 16 0 ''t3'' ''t4''
           (snd (update_training_status (PStr ''training'') [(''loss'', PFloat 2)] ''t1'' ''t2'' init_monitor))))
       = Some (PInt 93)
   \<and> series ''loss''
        (snd (start_training_session ''demo'' 3 500 16 0 ''t3'' ''t4''
           (snd (update_training_status (PStr ''training'') [(''loss'', PFloat 2)] ''t1'' ''t2'' init_monitor))))
       = Some (PList [])
   \<and> series ''loss''
        (snd (update_training_status (PStr ''training'') [(''loss'', PFloat 2)] ''t1'' ''t2'' init_monitor))
       = Some (PList [PFloat 2])"
  using start_training_session_resets_history[of 16 "''demo''" 3 500 0 "''t3''" "''t4''"
           "snd (update_training_status (PStr ''training'') [(''loss'', PFloat 2)] ''t1'' ''t2'' init_monitor)"]
  by (simp add: update_training_status_def init_monitor_def dict_has_def record_metrics_def record_loss_def
        seq_def mutate_item_def keep_last_100_points_def read_item_def series_def)

subsection \<open>Finishing a session\<close>

lemma finish_training_session_unfold:
  "finish_training_session now1 now2 now3 m
     = add_log (PStr ''Training session completed!'') (PStr ''info'') now3
         \<lparr>training_data = dict_set ''last_update'' (PStr now1)
                            (dict_set ''status'' (PStr ''completed'') (training_data m)),
          emitted = emitted m @
            [(''status_update'',
              PDict (dict_set ''last_update'' (PStr now1)
                       (dict_set ''status'' (PStr ''completed'') (training_data m))))]\<rparr>"
  by (simp add: finish_training_session_def seq_def update_training_status_no_kwargs add_info_def)

text \<open>
  Claim C7 says that on every state the last log entry is the completion message after
  \<open>finish_training_session\<close>. It is not: after
  \<open>update_training_status('training', logs={})\<close>, which returns,
  \<open>finish_training_session\<close> raises AttributeError in its \<open>add_log\<close> and the value
  under \<open>logs\<close> is still the empty dictionary.
\<close>

theorem finish_training_session_raises_on_overwritten_logs:
  "fst (update_training_status (PStr ''training'') [(''logs'', PDict [])] ''t1'' ''t2'' init_monitor) = None
   \<and> fst (finish_training_session ''t3'' ''t4'' ''t5''
           (snd (update_training_status (PStr ''training'') [(''logs'', PDict [])] ''t1'' ''t2'' init_monitor)))
       = Some AttributeError
   \<and> get_field ''logs''
        (snd (finish_training_session ''t3'' ''t4'' ''t5''
           (snd (update_training_status (PStr ''training'') [(''logs'', PDict [])] ''t1'' ''t2'' init_monitor))))
       = Some (PDict [])"
proof -
  let ?m = "snd (update_training_status (PStr ''training'') [(''logs'', PDict [])] ''t1'' ''t2'' init_monitor)"
  let ?m1 = "\<lparr>training_data = dict_set ''last_update'' (PStr ''t3'')
                            (dict_set ''status'' (PStr ''completed'') (training_data ?m)),
          emitted = emitted ?m @
            [(''status_update'',
              PDict (dict_set ''last_update'' (PStr ''t3'')
                       (dict_set ''status'' (PStr ''completed'') (training_data ?m))))]\<rparr>"
  have ok: "fst (update_training_status (PStr ''training'') [(''logs'', PDict [])] ''t1'' ''t2'' init_monitor) = None"
    by (rule update_training_status_no_metrics) simp_all
  have l: "get_field ''logs'' ?m = Some (PDict [])"
    by (simp add: update_training_status_field update_conv' init_monitor_def dict_has_def)
  then have l1: "get_field ''logs'' ?m1 = Some (PDict [])"
    by (simp add: get_field_def update_conv')
  have r: "finish_training_session ''t3'' ''t4'' ''t5'' ?m = (Some AttributeError, ?m1)"
    unfolding finish_training_session_unfold
    by (rule add_log_raises[OF l1]) simp
  show ?thesis
    unfolding r using ok l1 by simp
qed

text \<open>
  Claim C7, amended. On every state, \<open>finish_training_session\<close> has the outcome and the
  resulting state of the specification's \<open>updateStatus('completed')\<close> followed by
  \<open>appendLog("Training session completed!")\<close>, the status is \<open>completed\<close> afterwards
  and the last update is the first clock reading. When the log buffer is a list, the call
  returns, the buffer is the earlier one with the entry of the message
  "Training session completed!" put last (the oldest entry dropped when the buffer was
  full), and the call has emitted the snapshot as a \<open>status_update\<close> and then that entry
  as a \<open>log_update\<close>.
\<close>

theorem finish_training_session_refines_spec:
  "finish_training_session now1 now2 now3 m = finishSession_spec now1 now2 now3 m
   \<and> get_field ''status'' (snd (finish_training_session now1 now2 now3 m)) = Some (PStr ''completed'')
   \<and> get_field ''last_update'' (snd (finish_training_session now1 now2 now3 m)) = Some (PStr now1)
   \<and> (get_field ''logs'' m = Some (PList xs) \<longrightarrow>
        fst (finish_training_session now1 now2 now3 m) = None
        \<and> (\<exists>ys. get_field ''logs'' (snd (finish_training_session now1 now2 now3 m))
                   = Some (PList (ys @ [log_entry (PStr ''Training session completed!'') (PStr ''info'') now3])))
        \<and> get_field ''logs'' (snd (finish_training_session now1 now2 now3 m))
             = Some (PList
                 (if length xs < 100
                  then xs @ [log_entry (PStr ''Training session completed!'') (PStr ''info'') now3]
                  else tl (xs @ [log_entry (PStr ''Training session completed!'') (PStr ''info'') now3])))
        \<and> emitted (snd (finish_training_session now1 now2 now3 m))
             = emitted m @
                 [(''status_update'',
                   PDict (dict_set ''last_update'' (PStr now1)
                            (dict_set ''status'' (PStr ''completed'') (training_data m)))),
                  (''log_update'',
                   log_entry (PStr ''Training session completed!'') (PStr ''info'') now3)])"
proof (intro conjI impI)
  show "finish_training_session now1 now2 now3 m = finishSession_spec now1 now2 now3 m"
    by (simp add: finish_training_session_unfold finishSession_spec_def update_training_status_no_kwargs)
  show "get_field ''status'' (snd (finish_training_session now1 now2 now3 m)) = Some (PStr ''completed'')"
    unfolding finish_training_session_unfold
    by (simp add: add_log_frame) (simp add: get_field_def update_conv')
  show "get_field ''last_update'' (snd (finish_training_session now1 now2 now3 m)) = Some (PStr now1)"
    unfolding finish_training_session_unfold
    by (simp add: add_log_frame) (simp add: get_field_def update_conv')
next
  let ?m1 = "\<lparr>training_data = dict_set ''last_update'' (PStr now1)
                            (dict_set ''status'' (PStr ''completed'') (training_data m)),
          emitted = emitted m @
            [(''status_update'',
              PDict (dict_set ''last_update'' (PStr now1)
                       (dict_set ''status'' (PStr ''completed'') (training_data m))))]\<rparr>"
  let ?e = "log_entry (PStr ''Training session completed!'') (PStr ''info'') now3"
  assume "get_field ''logs'' m = Some (PList xs)"
  then have l1: "get_field ''logs'' ?m1 = Some (PList xs)"
    by (simp add: get_field_def update_conv')
  note r = add_log_list[OF l1, of "PStr ''Training session completed!''" "PStr ''info''" now3]
  show "fst (finish_training_session now1 now2 now3 m) = None"
    unfolding finish_training_session_unfold r by simp
  show logs: "get_field ''logs'' (snd (finish_training_session now1 now2 now3 m))
          = Some (PList (if length xs < 100 then xs @ [?e] else tl (xs @ [?e])))"
    unfolding finish_training_session_unfold r by (simp add: get_field_def update_conv')
  have "\<exists>ys. (if length xs < 100 then xs @ [?e] else tl (xs @ [?e])) = ys @ [?e]"
    by (cases xs) auto
  with logs show "\<exists>ys. get_field ''logs'' (snd (finish_training_session now1 now2 now3 m))
                   = Some (PList (ys @ [?e]))"
    by auto
  show "emitted (snd (finish_training_session now1 now2 now3 m))
             = emitted m @
                 [(''status_update'',
                   PDict (dict_set ''last_update'' (PStr now1)
                            (dict_set ''status'' (PStr ''completed'') (training_data m)))),
                  (''log_update'', ?e)]"
    unfolding finish_training_session_unfold r by simp
qed

theorem finish_training_session_refines_spec_witness:
  "get_field ''logs'' (snd (start_training_session ''demo'' 5 1000 32 0 ''t1'' ''t2'' init_monitor))
     = Some (PList (start_messages ''demo'' 5 1000 32 ''t1'' ''t2''))
   \<and> finish_training_session ''t3'' ''t4'' ''t5''
         (snd (start_training_session ''demo'' 5 1000 32 0 ''t1'' ''t2'' init_monitor))
       = finishSession_spec ''t3'' ''t4'' ''t5''
           (snd (start_training_session ''demo'' 5 1000 32 0 ''t1'' ''t2'' init_monitor))
   \<and> fst (finish_training_session ''t3'' ''t4'' ''t5''
           (snd (start_training_session ''demo'' 5 1000 32 0 ''t1'' ''t2'' init_monitor))) = None
   \<and> get_field ''status''
        (snd (finish_training_session ''t3'' ''t4'' ''t5''
           (snd (start_training_session ''demo'' 5 1000 32 0 ''t1'' ''t2'' init_monitor))))
       = Some (PStr ''completed'')
   \<and> get_field ''logs''
        (snd (finish_training_session ''t3'' ''t4'' ''t5''
           (snd (start_training_session ''demo'' 5 1000 32 0 ''t1'' ''t2'' init_monitor))))
       = Some (PList
           [PDict [(''timestamp'', PStr ''t1''), (''level'', PStr ''info''),
                   (''message'', PStr ''Starting training session for demo'')],
            PDict [(''timestamp'', PStr ''t2''), (''level'', PStr ''info''),
                   (''message'', PStr ''Total epochs: 5, Dataset size: 1000, Batch size: 32'')],
            PDict [(''timestamp'', PStr ''t5''), (''level'', PStr ''info''),
                   (''message'', PStr ''Training session completed!'')]])"
proof -
  let ?m = "snd (start_training_session ''demo'' 5 1000 32 0 ''t1'' ''t2'' init_monitor)"
  have h: "get_field ''logs'' ?m = Some (PList (start_messages ''demo'' 5 1000 32 ''t1'' ''t2''))"
    by (simp add: start_training_session_result get_field_def update_conv')
  note c = finish_training_session_refines_spec[of "''t3''" "''t4''" "''t5''" ?m "start_messages ''demo'' 5 1000 32 ''t1'' ''t2''"]
  from c h have "get_field ''logs'' (snd (finish_training_session ''t3'' ''t4'' ''t5'' ?m))
      = Some (PList
          (if length (start_messages ''demo'' 5 1000 32 ''t1'' ''t2'') < 100
           then start_messages ''demo'' 5 1000 32 ''t1'' ''t2''
                  @ [log_entry (PStr ''Training session completed!'') (PStr ''info'') ''t5'']
           else tl (start_messages ''demo'' 5 1000 32 ''t1'' ''t2''
                  @ [log_entry (PStr ''Training session completed!'') (PStr ''info'') ''t5''])))"
    by blast
  then have l: "get_field ''logs'' (snd (finish_training_session ''t3'' ''t4'' ''t5'' ?m))
       = Some (PList
           [PDict [(''timestamp'', PStr ''t1''), (''level'', PStr ''info''),
                   (''message'', PStr ''Starting training session for demo'')],
            PDict [(''timestamp'', PStr ''t2''), (''level'', PStr ''info''),
                   (''message'', PStr ''Total epochs: 5, Dataset size: 1000, Batch size: 32'')],
            PDict [(''timestamp'', PStr ''t5''), (''level'', PStr ''info''),
                   (''message'', PStr ''Training session completed!'')]])"
    by (simp add: start_messages_def log_entry_def start_message_def config_message_def str_int_def)
  from c h l show ?thesis by blast
qed

subsection \<open>The loop over the keyword arguments\<close>

lemma dict_has_dict_set: "dict_has (dict_set k v d) k' = (k' = k \<or> dict_has d k')"
  by (simp add: dict_has_def update_conv')

lemma update_fields_has: "dict_has (update_fields kwargs td) k = dict_has td k"
  by (induction kwargs td rule: update_fields.induct) (auto simp: dict_has_dict_set)

lemma update_fields_skip:
  "\<not> dict_has td k \<Longrightarrow> update_fields (kw1 @ (k, v) # kw2) td = update_fields (kw1 @ kw2) td"
proof (induction kw1 arbitrary: td)
  case Nil
  then show ?case by simp
next
  case (Cons a kw1)
  obtain key x where a: "a = (key, x)" by (cases a)
  have "\<not> dict_has (if dict_has td key then dict_set key x td else td) k"
    using Cons.prems by (auto simp: dict_has_dict_set)
  from Cons.IH[OF this] show ?case by (simp add: a)
qed

lemma update_fields_other:
  "k \<notin> fst ` set kwargs \<Longrightarrow> map_of (update_fields kwargs td) k = map_of td k"
  by (induction kwargs td rule: update_fields.induct) (auto simp: update_conv')

lemma update_fields_overwrites:
  assumes "distinct (map fst kwargs)" and "map_of kwargs k = Some v" and "dict_has td k"
  shows "map_of (update_fields kwargs td) k = Some v"
  using assms
proof (induction kwargs arbitrary: td)
  case Nil
  then show ?case by simp
next
  case (Cons a kwargs)
  obtain key x where a: "a = (key, x)" by (cases a)
  show ?case
  proof (cases "key = k")
    case True
    with Cons.prems a have "x = v" and "k \<notin> fst ` set kwargs" by auto
    with True Cons.prems(3) show ?thesis
      by (simp add: a update_fields_other update_conv')
  next
    case False
    with Cons.prems a have "distinct (map fst kwargs)" and "map_of kwargs k = Some v"
      and "dict_has (if dict_has td key then dict_set key x td else td) k"
      by (auto simp: dict_has_dict_set)
    from Cons.IH[OF this] show ?thesis by (simp add: a)
  qed
qed

subsection \<open>Keys are never removed\<close>

lemma keep_last_100_points_has: "dict_has (snd (keep_last_100_points td)) k = dict_has td k"
proof -
  have "dict_has (snd (seq (mutate_item ''metrics_history'' (mutate_sub ''loss'' py_pop0))
                   (mutate_item ''metrics_history'' (mutate_sub ''timestamps'' py_pop0)) td)) k
          = dict_has td k"
    by (rule seq_frame[where P = "\<lambda>d. dict_has d k"]) (simp_all add: mutate_item_has)
  then show ?thesis
    by (simp add: keep_last_100_points_def split: sum.splits)
qed

lemma record_metrics_has: "dict_has (snd (record_metrics kwargs now td)) k = dict_has td k"
  unfolding record_metrics_def
proof (rule seq_frame[where P = "\<lambda>d. dict_has d k"])
  have "dict_has (snd (record_loss l now s)) k = dict_has s k" for l s
    unfolding record_loss_def
    by (intro seq_frame[where P = "\<lambda>d. dict_has d k"])
       (simp_all add: mutate_item_has keep_last_100_points_has)
  then show "dict_has (snd ((case map_of kwargs ''loss'' of None \<Rightarrow> Pair None | Some l \<Rightarrow> record_loss l now) s)) k
          = dict_has s k" for s
    by (cases "map_of kwargs ''loss''") simp_all
  show "dict_has (snd ((case map_of kwargs ''learning_rate'' of None \<Rightarrow> Pair None
                      | Some lr \<Rightarrow> record_learning_rate lr) s)) k = dict_has s k" for s
    by (cases "map_of kwargs ''learning_rate''") (simp_all add: record_learning_rate_def mutate_item_has)
qed

lemma update_training_status_has:
  "dict_has (training_data m) k
     \<Longrightarrow> dict_has (training_data (snd (update_training_status status kwargs now1 now2 m))) k"
  by (simp add: training_data_update_training_status record_metrics_has dict_has_dict_set update_fields_has)

lemma dict_update_has: "dict_has d k \<Longrightarrow> dict_has (dict_update other d) k"
  unfolding dict_update_def
  by (induction other arbitrary: d) (auto simp: dict_has_dict_set)

lemma start_training_session_has:
  assumes "dict_has (training_data m) k"
  shows "dict_has (training_data (snd (start_training_session model_name total_epochs dataset_size
           batch_size t now1 now2 m))) k"
proof (cases "batch_size = 0")
  case True
  then show ?thesis using assms by (simp add: start_training_session_def)
next
  case False
  show ?thesis unfolding start_training_session_result[OF False]
    using assms by (simp add: dict_has_dict_set dict_update_has)
qed

lemma finish_training_session_has:
  "dict_has (training_data m) k
     \<Longrightarrow> dict_has (training_data (snd (finish_training_session now1 now2 now3 m))) k"
  unfolding finish_training_session_unfold
  by (simp add: add_log_has dict_has_dict_set)

lemma perform_has:
  "dict_has (training_data m) k \<Longrightarrow> dict_has (training_data (snd (perform c m))) k"
  by (cases c)
     (simp_all add: start_training_session_has update_training_status_has add_log_has
        finish_training_session_has)

lemma run_has:
  "dict_has (training_data m) k \<Longrightarrow> dict_has (training_data (snd (run cs m))) k"
proof (induction cs arbitrary: m)
  case Nil
  then show ?case by simp
next
  case (Cons c cs)
  from Cons.IH[OF perform_has[OF Cons.prems, of c]] show ?case
    by (simp only: run_Cons snd_conv)
qed

lemma snapshot_keys_present_init: "snapshot_keys_present init_monitor"
  by (simp add: snapshot_keys_present_def init_monitor_def dict_has_def)

lemma snapshot_keys_present_run:
  "snapshot_keys_present m \<Longrightarrow> snapshot_keys_present (snd (run cs m))"
  by (simp add: snapshot_keys_present_def list_all_iff run_has)

lemma snapshot_keys_presentD:
  assumes "snapshot_keys_present m"
  shows "dict_has (training_data m) ''status''" and "dict_has (training_data m) ''loss''"
    and "dict_has (training_data m) ''learning_rate''"
  using assms by (simp_all add: snapshot_keys_present_def init_monitor_def)

subsection \<open>Unrecognized keyword arguments\<close>

text \<open>
  Claim C4. On a state that has the keys of the snapshot (every state has, see
  \<open>snapshot_keys_present_run\<close>), a keyword whose name is not a key of the dictionary is
  ignored: the call has the same outcome and leaves the same state as the call without that
  keyword, whatever the other keywords are. With the unrecognized keyword alone the call
  returns, sets the status and sets \<open>last_update\<close> to the clock reading, and every other
  key keeps its value.
\<close>

theorem update_training_status_ignores_unrecognized:
  assumes "snapshot_keys_present m" and "\<not> dict_has (training_data m) k"
  shows "update_training_status status (kw1 @ (k, v) # kw2) now1 now2 m
           = update_training_status status (kw1 @ kw2) now1 now2 m
       \<and> update_training_status status [(k, v)] now1 now2 m
           = (None,
              \<lparr>training_data =
                 dict_set ''last_update'' (PStr now1) (dict_set ''status'' status (training_data m)),
               emitted = emitted m @
                 [(''status_update'',
                   PDict (dict_set ''last_update'' (PStr now1)
                            (dict_set ''status'' status (training_data m))))]\<rparr>)
       \<and> get_field ''last_update'' (snd (update_training_status status [(k, v)] now1 now2 m))
           = Some (PStr now1)
       \<and> (\<forall>k'. k' \<noteq> ''status'' \<and> k' \<noteq> ''last_update'' \<longrightarrow>
             get_field k' (snd (update_training_status status [(k, v)] now1 now2 m)) = get_field k' m)"
proof -
  from snapshot_keys_presentD[OF assms(1)] assms(2)
  have k: "k \<noteq> ''status''" "k \<noteq> ''loss''" "k \<noteq> ''learning_rate''" by auto
  have nk: "\<not> dict_has (dict_set ''status'' status (training_data m)) k"
    using assms(2) k by (simp add: dict_has_dict_set)
  have same: "update_training_status status (a @ (k, v) # b) now1 now2 m
           = update_training_status status (a @ b) now1 now2 m" for a b
  proof -
    have kw: "map_of (a @ (k, v) # b) ''loss'' = map_of (a @ b) ''loss''"
             "map_of (a @ (k, v) # b) ''learning_rate'' = map_of (a @ b) ''learning_rate''"
      using k by (simp_all add: map_add_def split: option.splits)
    show ?thesis
      by (simp only: update_training_status_def record_metrics_def Let_def kw update_fields_skip[OF nk])
  qed
  from same[of "[]" "[]"]
  have one: "update_training_status status [(k, v)] now1 now2 m = update_training_status status [] now1 now2 m"
    by simp
  show ?thesis
    unfolding one
    by (simp add: same update_training_status_no_kwargs) (simp add: get_field_def update_conv')
qed

theorem update_training_status_ignores_unrecognized_witness:
  "snapshot_keys_present init_monitor \<and> \<not> dict_has (training_data init_monitor) ''bogusField''
   \<and> fst (update_training_status (PStr ''training'') [(''bogusField'', PInt 42)] ''t1'' ''t2'' init_monitor) = None
   \<and> get_field ''last_update''
        (snd (update_training_status (PStr ''training'') [(''bogusField'', PInt 42)] ''t1'' ''t2'' init_monitor))
       = Some (PStr ''t1'')
   \<and> get_field ''bogusField''
        (snd (update_training_status (PStr ''training'') [(''bogusField'', PInt 42)] ''t1'' ''t2'' init_monitor))
       = None
   \<and> get_field ''current_epoch''
        (snd (update_training_status (PStr ''training'') [(''bogusField'', PInt 42)] ''t1'' ''t2'' init_monitor))
       = Some (PInt 0)"
proof -
  have h: "snapshot_keys_present init_monitor" "\<not> dict_has (training_data init_monitor) ''bogusField''"
    by (simp_all add: snapshot_keys_present_def init_monitor_def dict_has_def)
  have g: "get_field ''bogusField'' init_monitor = None" "get_field ''current_epoch'' init_monitor = Some (PInt 0)"
    by (simp_all add: get_field_def init_monitor_def)
  note c = update_training_status_ignores_unrecognized[OF h, of "PStr ''training''" "[]" "PInt 42" "[]" "''t1''" "''t2''"]
  from c have "\<exists>m'. update_training_status (PStr ''training'') [(''bogusField'', PInt 42)] ''t1'' ''t2'' init_monitor
                  = (None, m')"
    by blast
  then have r: "fst (update_training_status (PStr ''training'') [(''bogusField'', PInt 42)] ''t1'' ''t2'' init_monitor) = None"
    by auto
  from c have fr: "\<forall>k'. k' \<noteq> ''status'' \<and> k' \<noteq> ''last_update'' \<longrightarrow>
             get_field k' (snd (update_training_status (PStr ''training'') [(''bogusField'', PInt 42)] ''t1'' ''t2'' init_monitor))
               = get_field k' init_monitor"
    and lu: "get_field ''last_update''
        (snd (update_training_status (PStr ''training'') [(''bogusField'', PInt 42)] ''t1'' ''t2'' init_monitor))
       = Some (PStr ''t1'')"
    by blast+
  from fr g have "get_field ''bogusField''
        (snd (update_training_status (PStr ''training'') [(''bogusField'', PInt 42)] ''t1'' ''t2'' init_monitor))
       = None"
    and "get_field ''current_epoch''
        (snd (update_training_status (PStr ''training'') [(''bogusField'', PInt 42)] ''t1'' ''t2'' init_monitor))
       = Some (PInt 0)"
    by simp_all
  with h r lu show ?thesis by blast
qed

subsection \<open>Recognized keyword arguments\<close>

text \<open>
  Claim C9. A keyword is recognized whenever its name is a key of the state dictionary,
  whatever the key holds: the loop over the keyword arguments leaves the supplied value under
  that key, the log buffer and the metrics history included, and so does the whole call. Two
  keys are written again later in the call: \<open>last_update\<close> always, and
  \<open>metrics_history\<close> when a loss or a learning rate is supplied as well. So
  \<open>update_training_status('training', logs=[])\<close> replaces the whole log buffer by the
  empty list. (The keyword dictionary is the one the body of the method sees; Python binds a
  keyword named \<open>status\<close> to the parameter of that name.)
\<close>

theorem update_training_status_overwrites_any_key:
  assumes "dict_has (training_data m) k" and "distinct (map fst kwargs)"
    and "map_of kwargs k = Some v"
  shows "map_of (update_fields kwargs (dict_set ''status'' status (training_data m))) k = Some v
       \<and> (k \<noteq> ''last_update''
            \<and> (k = ''metrics_history'' \<longrightarrow>
                   map_of kwargs ''loss'' = None \<and> map_of kwargs ''learning_rate'' = None)
            \<longrightarrow> get_field k (snd (update_training_status status kwargs now1 now2 m)) = Some v)"
proof (intro conjI impI)
  have has: "dict_has (dict_set ''status'' status (training_data m)) k"
    using assms(1) by (simp add: dict_has_dict_set)
  show recognized:
    "map_of (update_fields kwargs (dict_set ''status'' status (training_data m))) k = Some v"
    by (rule update_fields_overwrites[OF assms(2,3) has])
  assume later: "k \<noteq> ''last_update''
            \<and> (k = ''metrics_history'' \<longrightarrow>
                   map_of kwargs ''loss'' = None \<and> map_of kwargs ''learning_rate'' = None)"
  then have loop: "map_of (dict_set ''last_update'' (PStr now1)
                (update_fields kwargs (dict_set ''status'' status (training_data m)))) k = Some v"
    by (simp add: update_conv' recognized)
  show "get_field k (snd (update_training_status status kwargs now1 now2 m)) = Some v"
  proof (cases "k = ''metrics_history''")
    case False
    then show ?thesis by (simp add: update_training_status_field loop)
  next
    case True
    with later have "map_of kwargs ''loss'' = None" "map_of kwargs ''learning_rate'' = None"
      by simp_all
    then show ?thesis
      using loop by (simp add: get_field_def training_data_update_training_status record_metrics_none)
  qed
qed

theorem update_training_status_overwrites_any_key_witness:
  "dict_has (training_data (snd (start_training_session ''demo'' 5 1000 32 0 ''t1'' ''t2'' init_monitor))) ''logs''
   \<and> distinct (map fst [(''logs'', PList [])])
   \<and> map_of [(''logs'', PList [])] ''logs'' = Some (PList [])
   \<and> ''logs'' \<noteq> ''last_update''
   \<and> ''logs'' \<noteq> ''metrics_history''
   \<and> get_field ''logs'' (snd (start_training_session ''demo'' 5 1000 32 0 ''t1'' ''t2'' init_monitor))
        = Some (PList (start_messages ''demo'' 5 1000 32 ''t1'' ''t2''))
   \<and> get_field ''logs''
         (snd (update_training_status (PStr ''training'') [(''logs'', PList [])] ''t3'' ''t4''
            (snd (start_training_session ''demo'' 5 1000 32 0 ''t1'' ''t2'' init_monitor))))
        = Some (PList [])"
proof -
  let ?m = "snd (start_training_session ''demo'' 5 1000 32 0 ''t1'' ''t2'' init_monitor)"
  have l: "get_field ''logs'' ?m = Some (PList (start_messages ''demo'' 5 1000 32 ''t1'' ''t2''))"
    by (simp add: start_training_session_result get_field_def update_conv')
  then have h1: "dict_has (training_data ?m) ''logs''"
    by (simp add: dict_has_def get_field_def)
  have h2: "distinct (map fst [(''logs'', PList [])])"
    and h3: "map_of [(''logs'', PList [])] ''logs'' = Some (PList [])"
    and h4: "''logs'' \<noteq> ''last_update''"
    and h6: "''logs'' \<noteq> ''metrics_history''"
    by simp_all
  from update_training_status_overwrites_any_key[OF h1 h2 h3, of "PStr ''training''" "''t3''" "''t4''"]
    l h1 h2 h3 h4 h6
  show ?thesis by blast
qed

subsection \<open>The metric history on a well-formed state\<close>

lemma history_mutate:
  assumes "map_of td ''metrics_history'' = Some (PDict mh)" and "map_of mh k = Some x"
    and "f x = Inr x'"
  shows "mutate_item ''metrics_history'' (mutate_sub k f) td
           = (None, dict_set ''metrics_history'' (PDict (dict_set k x' mh)) td)"
  using assms by (simp add: mutate_item_def)

lemma record_loss_ok:
  assumes mh: "map_of td ''metrics_history'' = Some (PDict mh)"
    and ls: "map_of mh ''loss'' = Some (PList ls)"
    and ts: "map_of mh ''timestamps'' = Some (PList ts)"
  shows "\<exists>mh'. record_loss l now td = (None, dict_set ''metrics_history'' (PDict mh') td)
           \<and> map_of mh' = (map_of mh)
                (''loss'' \<mapsto> PList (if length ls < 100 then ls @ [l] else tl (ls @ [l])),
                 ''timestamps'' \<mapsto> PList (if length ls < 100 then ts @ [PStr now] else tl (ts @ [PStr now])))"
proof -
  let ?mh1 = "dict_set ''loss'' (PList (ls @ [l])) mh"
  let ?td1 = "dict_set ''metrics_history'' (PDict ?mh1) td"
  let ?mh2 = "dict_set ''timestamps'' (PList (ts @ [PStr now])) ?mh1"
  let ?td2 = "dict_set ''metrics_history'' (PDict ?mh2) td"
  have s1: "mutate_item ''metrics_history'' (mutate_sub ''loss'' (py_append l)) td = (None, ?td1)"
    by (rule history_mutate[OF mh ls]) simp
  have "mutate_item ''metrics_history'' (mutate_sub ''timestamps'' (py_append (PStr now))) ?td1
          = (None, dict_set ''metrics_history'' (PDict ?mh2) ?td1)"
    by (rule history_mutate[where x = "PList ts"]) (simp_all add: update_conv' ts)
  then have s2: "mutate_item ''metrics_history'' (mutate_sub ''timestamps'' (py_append (PStr now))) ?td1
          = (None, ?td2)"
    by simp
  have len: "read_item ''metrics_history'' (read_sub ''loss'' py_len) ?td2 = Inr (Suc (length ls))"
    by (simp add: read_item_def update_conv')
  show ?thesis
  proof (cases "length ls < 100")
    case True
    then have "keep_last_100_points ?td2 = (None, ?td2)"
      by (simp add: keep_last_100_points_def len)
    then have "record_loss l now td = (None, ?td2)"
      by (simp add: record_loss_def seq_def s1 s2)
    moreover have "map_of ?mh2 = (map_of mh)(''loss'' \<mapsto> PList (ls @ [l]), ''timestamps'' \<mapsto> PList (ts @ [PStr now]))"
      by (simp add: update_conv')
    ultimately show ?thesis using True by auto
  next
    case False
    let ?mh3 = "dict_set ''loss'' (PList (tl (ls @ [l]))) ?mh2"
    let ?td3 = "dict_set ''metrics_history'' (PDict ?mh3) td"
    let ?mh4 = "dict_set ''timestamps'' (PList (tl (ts @ [PStr now]))) ?mh3"
    let ?td4 = "dict_set ''metrics_history'' (PDict ?mh4) td"
    have "mutate_item ''metrics_history'' (mutate_sub ''loss'' py_pop0) ?td2
            = (None, dict_set ''metrics_history'' (PDict ?mh3) ?td2)"
      by (rule history_mutate[where x = "PList (ls @ [l])"]) (cases ls; simp add: update_conv')+
    then have p1: "mutate_item ''metrics_history'' (mutate_sub ''loss'' py_pop0) ?td2 = (None, ?td3)"
      by simp
    have "mutate_item ''metrics_history'' (mutate_sub ''timestamps'' py_pop0) ?td3
            = (None, dict_set ''metrics_history'' (PDict ?mh4) ?td3)"
      by (rule history_mutate[where x = "PList (ts @ [PStr now])"]) (cases ts; simp add: update_conv')+
    then have p2: "mutate_item ''metrics_history'' (mutate_sub ''timestamps'' py_pop0) ?td3 = (None, ?td4)"
      by simp
    have "keep_last_100_points ?td2 = (None, ?td4)"
      using False by (simp add: keep_last_100_points_def len seq_def p1 p2)
    then have "record_loss l now td = (None, ?td4)"
      by (simp add: record_loss_def seq_def s1 s2)
    moreover have "map_of ?mh4 = (map_of mh)(''loss'' \<mapsto> PList (tl (ls @ [l])),
                      ''timestamps'' \<mapsto> PList (tl (ts @ [PStr now])))"
      by (rule ext) (simp add: update_conv')
    ultimately show ?thesis using False by auto
  qed
qed

lemma record_learning_rate_ok:
  assumes "map_of td ''metrics_history'' = Some (PDict mh)"
    and "map_of mh ''learning_rate'' = Some (PList lrs)"
  shows "record_learning_rate lr td
           = (None, dict_set ''metrics_history''
                      (PDict (dict_set ''learning_rate'' (PList (lrs @ [lr])) mh)) td)"
  unfolding record_learning_rate_def by (rule history_mutate[OF assms]) simp

lemma record_metrics_ok:
  assumes mh: "map_of td ''metrics_history'' = Some (PDict mh)"
    and ls: "map_of mh ''loss'' = Some (PList ls)"
    and lrs: "map_of mh ''learning_rate'' = Some (PList lrs)"
    and ts: "map_of mh ''timestamps'' = Some (PList ts)"
  shows "\<exists>mh'. record_metrics kwargs now td = (None, dict_set ''metrics_history'' (PDict mh') td)
           \<and> map_of mh' ''loss'' = Some (PList (loss_after kwargs ls))
           \<and> map_of mh' ''learning_rate'' = Some (PList (learning_rate_after kwargs lrs))
           \<and> map_of mh' ''timestamps'' = Some (PList (timestamps_after kwargs now ls ts))"
proof -
  have first: "\<exists>mh1. (case map_of kwargs ''loss'' of None \<Rightarrow> Pair None | Some l \<Rightarrow> record_loss l now) td
                  = (None, dict_set ''metrics_history'' (PDict mh1) td)
           \<and> map_of mh1 ''loss'' = Some (PList (loss_after kwargs ls))
           \<and> map_of mh1 ''learning_rate'' = Some (PList lrs)
           \<and> map_of mh1 ''timestamps'' = Some (PList (timestamps_after kwargs now ls ts))"
  proof (cases "map_of kwargs ''loss''")
    case None
    have "dict_set ''metrics_history'' (PDict mh) td = td"
      by (rule update_triv[OF mh])
    with None ls lrs ts show ?thesis
      by (intro exI[of _ mh]) (simp add: loss_after_def timestamps_after_def)
  next
    case (Some l)
    from record_loss_ok[OF mh ls ts, of l now] obtain mh1 where
      "record_loss l now td = (None, dict_set ''metrics_history'' (PDict mh1) td)"
      "map_of mh1 = (map_of mh)
                (''loss'' \<mapsto> PList (if length ls < 100 then ls @ [l] else tl (ls @ [l])),
                 ''timestamps'' \<mapsto> PList (if length ls < 100 then ts @ [PStr now] else tl (ts @ [PStr now])))"
      by blast
    with Some lrs show ?thesis
      by (intro exI[of _ mh1]) (simp add: loss_after_def timestamps_after_def)
  qed
  then obtain mh1 where
    r1: "(case map_of kwargs ''loss'' of None \<Rightarrow> Pair None | Some l \<Rightarrow> record_loss l now) td
                  = (None, dict_set ''metrics_history'' (PDict mh1) td)"
    and m1: "map_of mh1 ''loss'' = Some (PList (loss_after kwargs ls))"
      "map_of mh1 ''learning_rate'' = Some (PList lrs)"
      "map_of mh1 ''timestamps'' = Some (PList (timestamps_after kwargs now ls ts))"
    by blast
  let ?td1 = "dict_set ''metrics_history'' (PDict mh1) td"
  have mh1: "map_of ?td1 ''metrics_history'' = Some (PDict mh1)"
    by (simp add: update_conv')
  show ?thesis
  proof (cases "map_of kwargs ''learning_rate''")
    case None
    then have "record_metrics kwargs now td = (None, ?td1)"
      by (simp add: record_metrics_def seq_def r1)
    with None m1 show ?thesis
      by (intro exI[of _ mh1]) (simp add: learning_rate_after_def)
  next
    case (Some lr)
    let ?mh2 = "dict_set ''learning_rate'' (PList (lrs @ [lr])) mh1"
    from record_learning_rate_ok[OF mh1 m1(2), of lr]
    have "record_learning_rate lr ?td1 = (None, dict_set ''metrics_history'' (PDict ?mh2) td)"
      by simp
    with Some have "record_metrics kwargs now td = (None, dict_set ''metrics_history'' (PDict ?mh2) td)"
      by (simp add: record_metrics_def seq_def r1)
    with Some m1 show ?thesis
      by (intro exI[of _ ?mh2]) (simp add: learning_rate_after_def update_conv')
  qed
qed

lemma seriesD:
  assumes "series k m = Some x"
  obtains mh where "map_of (training_data m) ''metrics_history'' = Some (PDict mh)"
    and "map_of mh k = Some x"
  using assms by (auto simp: series_def split: option.splits pyval.splits)

lemma map_of_None_notin: "map_of kwargs k = None \<Longrightarrow> k \<notin> fst ` set kwargs"
  by (simp add: map_of_eq_None_iff)

lemma update_training_status_history:
  assumes ls: "series ''loss'' m = Some (PList ls)"
    and lrs: "series ''learning_rate'' m = Some (PList lrs)"
    and ts: "series ''timestamps'' m = Some (PList ts)"
    and kw: "map_of kwargs ''metrics_history'' = None"
  shows "fst (update_training_status status kwargs now1 now2 m) = None"
    and "series ''loss'' (snd (update_training_status status kwargs now1 now2 m))
           = Some (PList (loss_after kwargs ls))"
    and "series ''learning_rate'' (snd (update_training_status status kwargs now1 now2 m))
           = Some (PList (learning_rate_after kwargs lrs))"
    and "series ''timestamps'' (snd (update_training_status status kwargs now1 now2 m))
           = Some (PList (timestamps_after kwargs now2 ls ts))"
proof -
  from ls obtain mh where mh: "map_of (training_data m) ''metrics_history'' = Some (PDict mh)"
    and 1: "map_of mh ''loss'' = Some (PList ls)"
    by (rule seriesD)
  from lrs ts mh have 2: "map_of mh ''learning_rate'' = Some (PList lrs)"
    and 3: "map_of mh ''timestamps'' = Some (PList ts)"
    by (simp_all add: series_def)
  let ?td3 = "dict_set ''last_update'' (PStr now1)
                (update_fields kwargs (dict_set ''status'' status (training_data m)))"
  have mh3: "map_of ?td3 ''metrics_history'' = Some (PDict mh)"
    using mh by (simp add: update_conv' update_fields_other[OF map_of_None_notin[OF kw]])
  from record_metrics_ok[OF mh3 1 2 3, of kwargs now2] obtain mh' where
    r: "record_metrics kwargs now2 ?td3 = (None, dict_set ''metrics_history'' (PDict mh') ?td3)"
    and s: "map_of mh' ''loss'' = Some (PList (loss_after kwargs ls))"
      "map_of mh' ''learning_rate'' = Some (PList (learning_rate_after kwargs lrs))"
      "map_of mh' ''timestamps'' = Some (PList (timestamps_after kwargs now2 ls ts))"
    by blast
  have u: "update_training_status status kwargs now1 now2 m
             = (None, \<lparr>training_data = dict_set ''metrics_history'' (PDict mh') ?td3,
                       emitted = emitted m @
                         [(''status_update'', PDict (dict_set ''metrics_history'' (PDict mh') ?td3))]\<rparr>)"
    by (simp add: update_training_status_def Let_def r)
  show "fst (update_training_status status kwargs now1 now2 m) = None"
    by (simp add: u)
  show "series ''loss'' (snd (update_training_status status kwargs now1 now2 m))
           = Some (PList (loss_after kwargs ls))"
    and "series ''learning_rate'' (snd (update_training_status status kwargs now1 now2 m))
           = Some (PList (learning_rate_after kwargs lrs))"
    and "series ''timestamps'' (snd (update_training_status status kwargs now1 now2 m))
           = Some (PList (timestamps_after kwargs now2 ls ts))"
    by (simp_all add: u series_def update_conv' s)
qed

lemma run_replicate_update:
  assumes "series ''loss'' m = Some (PList ls)"
    and "series ''learning_rate'' m = Some (PList lrs)"
    and "series ''timestamps'' m = Some (PList ts)"
    and "length ls \<le> 100"
    and kw: "map_of kwargs ''metrics_history'' = None" "map_of kwargs ''loss'' = Some l"
      "map_of kwargs ''learning_rate'' = Some lr"
  shows "fst (run (replicate n (Update status kwargs now1 now2)) m) = replicate n None
       \<and> series ''learning_rate'' (snd (run (replicate n (Update status kwargs now1 now2)) m))
           = Some (PList (lrs @ replicate n lr))
       \<and> series ''loss'' (snd (run (replicate n (Update status kwargs now1 now2)) m))
           = Some (PList (drop (length ls + n - 100) (ls @ replicate n l)))"
  using assms(1-4)
proof (induction n arbitrary: m ls lrs ts)
  case 0
  then show ?case by simp
next
  case (Suc n)
  let ?c = "Update status kwargs now1 now2"
  let ?m1 = "snd (perform ?c m)"
  let ?ls1 = "if length ls < 100 then ls @ [l] else tl (ls @ [l])"
  note h = update_training_status_history[OF Suc.prems(1-3) kw(1), of status now1 now2]
  have f: "fst (perform ?c m) = None" using h(1) by simp
  have s1: "series ''loss'' ?m1 = Some (PList ?ls1)"
    using h(2) by (simp add: loss_after_def kw)
  have s2: "series ''learning_rate'' ?m1 = Some (PList (lrs @ [lr]))"
    using h(3) by (simp add: learning_rate_after_def kw)
  have s3: "series ''timestamps'' ?m1 = Some (PList (timestamps_after kwargs now2 ls ts))"
    using h(4) by simp
  have n1: "length ?ls1 \<le> 100" using Suc.prems(4) by simp
  note ih = Suc.IH[OF s1 s2 s3 n1]
  have r: "run (replicate (Suc n) ?c) m
             = (None # fst (run (replicate n ?c) ?m1), snd (run (replicate n ?c) ?m1))"
    unfolding replicate_Suc run_Cons f ..
  have d: "drop (length ?ls1 + n - 100) (?ls1 @ replicate n l)
             = drop (length ls + Suc n - 100) (ls @ replicate (Suc n) l)"
    using drop_after_push[OF Suc.prems(4), of l n "replicate n l"] by simp
  show ?case
    unfolding r using ih d by simp
qed


subsection \<open>The learning-rate series\<close>

text \<open>
  Claim C1 (the code does not do this). After 101 calls that each supply a loss and a learning
  rate, made on the fresh monitor, every call has returned, the loss series holds 100 points,
  and the learning-rate series holds all 101 points: nothing was evicted from it.
\<close>

theorem learning_rate_series_exceeds_100:
  "fst (run (replicate 101
          (Update (PStr ''training'') [(''loss'', PFloat 2), (''learning_rate'', PFloat (1 / 1000))] ''t1'' ''t2''))
          init_monitor) = replicate 101 None
   \<and> series ''learning_rate''
        (snd (run (replicate 101
          (Update (PStr ''training'') [(''loss'', PFloat 2), (''learning_rate'', PFloat (1 / 1000))] ''t1'' ''t2''))
          init_monitor))
       = Some (PList (replicate 101 (PFloat (1 / 1000))))
   \<and> series ''loss''
        (snd (run (replicate 101
          (Update (PStr ''training'') [(''loss'', PFloat 2), (''learning_rate'', PFloat (1 / 1000))] ''t1'' ''t2''))
          init_monitor))
       = Some (PList (replicate 100 (PFloat 2)))"
proof -
  have s: "series ''loss'' init_monitor = Some (PList [])"
    "series ''learning_rate'' init_monitor = Some (PList [])"
    "series ''timestamps'' init_monitor = Some (PList [])"
    by (simp_all add: series_def init_monitor_def)
  have kw: "map_of [(''loss'', PFloat 2), (''learning_rate'', PFloat (1 / 1000))] ''metrics_history'' = None"
    "map_of [(''loss'', PFloat 2), (''learning_rate'', PFloat (1 / 1000))] ''loss'' = Some (PFloat 2)"
    "map_of [(''loss'', PFloat 2), (''learning_rate'', PFloat (1 / 1000))] ''learning_rate'' = Some (PFloat (1 / 1000))"
    by simp_all
  from run_replicate_update[OF s _ kw, where status = "PStr ''training''" and ?now1.0 = "''t1''"
         and ?now2.0 = "''t2''" and n = 101]
  show ?thesis by simp
qed


subsection \<open>No validation of the supplied values\<close>

text \<open>
  Claim C3 says that a value of the wrong type for a numeric field makes the call fail and
  leaves the state unchanged. It does not: with the string \<open>abc\<close> as the loss, the call on
  the fresh monitor returns, and the snapshot's loss, 0.0 before, is that string afterwards.
\<close>

theorem update_training_status_accepts_wrong_type:
  "fst (update_training_status (PStr ''training'') [(''loss'', PStr ''abc'')] ''t1'' ''t2'' init_monitor) = None
   \<and> get_field ''loss''
        (snd (update_training_status (PStr ''training'') [(''loss'', PStr ''abc'')] ''t1'' ''t2'' init_monitor))
       = Some (PStr ''abc'')
   \<and> get_field ''loss'' init_monitor = Some (PFloat 0)"
proof -
  have s: "series ''loss'' init_monitor = Some (PList [])"
    "series ''learning_rate'' init_monitor = Some (PList [])"
    "series ''timestamps'' init_monitor = Some (PList [])"
    by (simp_all add: series_def init_monitor_def)
  have kw: "map_of [(''loss'', PStr ''abc'')] ''metrics_history'' = None" by simp
  have "get_field ''loss''
        (snd (update_training_status (PStr ''training'') [(''loss'', PStr ''abc'')] ''t1'' ''t2'' init_monitor))
       = Some (PStr ''abc'')"
    by (simp add: update_training_status_field update_conv' init_monitor_def dict_has_def)
  moreover have "get_field ''loss'' init_monitor = Some (PFloat 0)"
    by (simp add: get_field_def init_monitor_def)
  ultimately show ?thesis
    using update_training_status_history(1)[OF s kw] by simp
qed


lemma is_listD: "is_list x \<Longrightarrow> \<exists>xs. x = Some (PList xs)"
  by (cases x rule: is_list.cases) simp_all

lemma history_okD:
  assumes "history_ok m"
  obtains ls lrs ts where "series ''loss'' m = Some (PList ls)"
    and "series ''learning_rate'' m = Some (PList lrs)"
    and "series ''timestamps'' m = Some (PList ts)"
proof -
  from assms have "is_list (series ''loss'' m)" "is_list (series ''learning_rate'' m)"
    "is_list (series ''timestamps'' m)"
    by (simp_all add: history_ok_def)
  then obtain ls lrs ts where "series ''loss'' m = Some (PList ls)"
    "series ''learning_rate'' m = Some (PList lrs)" "series ''timestamps'' m = Some (PList ts)"
    using is_listD by metis
  then show thesis by (rule that)
qed

text \<open>
  Claim C3, amended. \<open>update_training_status\<close> validates nothing. On a state whose history
  series are lists, and without a \<open>metrics_history\<close> keyword, the call returns for every
  keyword dictionary, and a value supplied for a key of the state dictionary, of whatever
  type, is the value of that key afterwards (\<open>last_update\<close> apart, which the call sets
  itself).
\<close>

theorem update_training_status_stores_any_value:
  assumes "history_ok m" and "distinct (map fst kwargs)"
    and "map_of kwargs ''metrics_history'' = None"
    and "dict_has (training_data m) k" and "map_of kwargs k = Some v" and "k \<noteq> ''last_update''"
  shows "fst (update_training_status status kwargs now1 now2 m) = None
       \<and> get_field k (snd (update_training_status status kwargs now1 now2 m)) = Some v"
proof -
  from assms(1) obtain ls lrs ts where s: "series ''loss'' m = Some (PList ls)"
    "series ''learning_rate'' m = Some (PList lrs)" "series ''timestamps'' m = Some (PList ts)"
    by (rule history_okD)
  from assms(3,5) have k: "k \<noteq> ''metrics_history''" by (cases "k = ''metrics_history''") simp_all
  have has: "dict_has (dict_set ''status'' status (training_data m)) k"
    using assms(4) by (simp add: dict_has_dict_set)
  have "get_field k (snd (update_training_status status kwargs now1 now2 m)) = Some v"
    using assms(6)
    by (simp add: update_training_status_field[OF k] update_conv'
          update_fields_overwrites[OF assms(2,5) has])
  with update_training_status_history(1)[OF s assms(3)] show ?thesis by simp
qed


theorem update_training_status_stores_any_value_witness:
  "history_ok init_monitor \<and> distinct (map fst [(''current_epoch'', PStr ''two'')])
   \<and> map_of [(''current_epoch'', PStr ''two'')] ''metrics_history'' = None
   \<and> dict_has (training_data init_monitor) ''current_epoch''
   \<and> map_of [(''current_epoch'', PStr ''two'')] ''current_epoch'' = Some (PStr ''two'')
   \<and> ''current_epoch'' \<noteq> ''last_update''
   \<and> fst (update_training_status (PStr ''training'') [(''current_epoch'', PStr ''two'')] ''t1'' ''t2'' init_monitor)
       = None
   \<and> get_field ''current_epoch''
        (snd (update_training_status (PStr ''training'') [(''current_epoch'', PStr ''two'')] ''t1'' ''t2'' init_monitor))
       = Some (PStr ''two'')"
proof -
  have h: "history_ok init_monitor" "distinct (map fst [(''current_epoch'', PStr ''two'')])"
    "map_of [(''current_epoch'', PStr ''two'')] ''metrics_history'' = None"
    "dict_has (training_data init_monitor) ''current_epoch''"
    "map_of [(''current_epoch'', PStr ''two'')] ''current_epoch'' = Some (PStr ''two'')"
    "''current_epoch'' \<noteq> ''last_update''"
    by (simp_all add: history_ok_def series_def init_monitor_def dict_has_def)
  from update_training_status_stores_any_value[OF h, of "PStr ''training''" "''t1''" "''t2''"] h show ?thesis by blast
qed

subsection \<open>The epoch counters\<close>

lemma update_fields_pred:
  assumes "P (map_of td k)" and "\<forall>(k', v) \<in> set kwargs. k' = k \<longrightarrow> P (Some v)"
  shows "P (map_of (update_fields kwargs td) k)"
  using assms
proof (induction kwargs td rule: update_fields.induct)
  case (1 td)
  then show ?case by simp
next
  case (2 key v kwargs td)
  have "P (map_of (if dict_has td key then dict_set key v td else td) k)"
    using "2.prems" by (auto simp: update_conv')
  moreover have "\<forall>(k', v) \<in> set kwargs. k' = k \<longrightarrow> P (Some v)"
    using "2.prems"(2) by auto
  ultimately show ?case using "2.IH" by simp
qed

lemma update_training_status_untouched:
  assumes "k \<notin> fst ` set kwargs" and "k \<noteq> ''metrics_history''"
    and "k \<noteq> ''last_update''" and "k \<noteq> ''status''"
  shows "get_field k (snd (update_training_status status kwargs now1 now2 m)) = get_field k m"
proof -
  have "get_field k (snd (update_training_status status kwargs now1 now2 m))
          = map_of (update_fields kwargs (dict_set ''status'' status (training_data m))) k"
    using assms(3) by (simp add: update_training_status_field[OF assms(2)] update_conv')
  also have "\<dots> = map_of (dict_set ''status'' status (training_data m)) k"
    by (rule update_fields_other[OF assms(1)])
  also have "\<dots> = get_field k m"
    using assms(4) by (simp add: get_field_def update_conv')
  finally show ?thesis .
qed

lemma epochs_within_in_order: "epochs_within n m \<Longrightarrow> epochs_in_order m"
  by (auto simp: epochs_within_def epochs_in_order_def split: option.splits pyval.splits)

lemma epochs_within_cong:
  assumes "get_field ''total_epochs'' m' = get_field ''total_epochs'' m"
    and "get_field ''current_epoch'' m' = get_field ''current_epoch'' m"
  shows "epochs_within n m' = epochs_within n m"
  by (simp add: epochs_within_def assms)

lemma epochs_within_start:
  assumes "0 \<le> total_epochs" and "batch_size \<noteq> 0"
  shows "epochs_within total_epochs
           (snd (start_training_session model_name total_epochs dataset_size batch_size t now1 now2 m))"
  unfolding start_training_session_result[OF assms(2)]
  using assms(1)
  by (simp add: epochs_within_def get_field_def update_conv' session_fields_lookup)

lemma epochs_within_update:
  assumes "epochs_within n m" and "epoch_kwargs n kwargs"
  shows "epochs_within n (snd (update_training_status status kwargs now1 now2 m))"
proof -
  let ?td1 = "dict_set ''status'' status (training_data m)"
  from assms(2) have no_total: "''total_epochs'' \<notin> fst ` set kwargs"
    by (auto simp: epoch_kwargs_def list_all_iff)
  have t: "get_field ''total_epochs'' (snd (update_training_status status kwargs now1 now2 m))
             = get_field ''total_epochs'' m"
    by (rule update_training_status_untouched[OF no_total]) simp_all
  let ?P = "\<lambda>x. case x of Some (PInt c) \<Rightarrow> 0 \<le> c \<and> c \<le> n | _ \<Rightarrow> False"
  have "?P (map_of ?td1 ''current_epoch'')"
    using assms(1) by (simp add: epochs_within_def get_field_def update_conv')
  moreover have "\<forall>(k', v) \<in> set kwargs. k' = ''current_epoch'' \<longrightarrow> ?P (Some v)"
    using assms(2) by (auto simp: epoch_kwargs_def list_all_iff)
  ultimately have "?P (map_of (update_fields kwargs ?td1) ''current_epoch'')"
    by (rule update_fields_pred)
  then have c: "?P (get_field ''current_epoch'' (snd (update_training_status status kwargs now1 now2 m)))"
    by (simp add: update_training_status_field update_conv')
  from assms(1) t c show ?thesis
    by (simp add: epochs_within_def)
qed

lemma epochs_within_add_log:
  "epochs_within n (snd (add_log message level now m)) = epochs_within n m"
  by (rule epochs_within_cong) (simp_all add: add_log_frame)

lemma epochs_within_finish:
  "epochs_within n m \<Longrightarrow> epochs_within n (snd (finish_training_session now1 now2 now3 m))"
  unfolding finish_training_session_unfold epochs_within_add_log
  by (simp add: epochs_within_def get_field_def update_conv')

lemma epochs_within_perform:
  "epochs_within n m \<Longrightarrow> epoch_call n c \<Longrightarrow> epochs_within n (snd (perform c m))"
  by (cases c) (simp_all add: epochs_within_update epochs_within_add_log epochs_within_finish)

lemma epochs_within_run:
  "epochs_within n m \<Longrightarrow> list_all (epoch_call n) cs \<Longrightarrow> epochs_within n (snd (run cs m))"
proof (induction cs arbitrary: m)
  case Nil
  then show ?case by simp
next
  case (Cons c cs)
  from Cons.prems have "epochs_within n (snd (perform c m))" and "list_all (epoch_call n) cs"
    by (simp_all add: epochs_within_perform)
  from Cons.IH[OF this] show ?case
    by (simp only: run_Cons snd_conv)
qed

text \<open>
  Claim C8 says that the current epoch never exceeds the total after a session start. It
  does: after a start with 5 epochs, \<open>update_training_status('training', current_epoch=10)\<close>
  leaves a state in which the invariant fails.
\<close>

theorem epochs_out_of_order_after_update:
  "\<not> epochs_in_order
       (snd (run [Start ''demo'' 5 1000 32 0 ''t1'' ''t2'',
                  Update (PStr ''training'') [(''current_epoch'', PInt 10)] ''t3'' ''t4'']
              init_monitor))"
proof -
  let ?m1 = "snd (start_training_session ''demo'' 5 1000 32 0 ''t1'' ''t2'' init_monitor)"
  let ?m2 = "snd (update_training_status (PStr ''training'') [(''current_epoch'', PInt 10)] ''t3'' ''t4'' ?m1)"
  have r: "snd (run [Start ''demo'' 5 1000 32 0 ''t1'' ''t2'',
                  Update (PStr ''training'') [(''current_epoch'', PInt 10)] ''t3'' ''t4''] init_monitor) = ?m2"
    by (simp only: run_Cons run.simps perform.simps snd_conv)
  have w: "epochs_within 5 ?m1"
    by (rule epochs_within_start) simp_all
  then have has: "dict_has (dict_set ''status'' (PStr ''training'') (training_data ?m1)) ''current_epoch''"
    by (auto simp: epochs_within_def get_field_def dict_has_def update_conv' split: option.splits)
  have c: "get_field ''current_epoch'' ?m2 = Some (PInt 10)"
    using update_fields_overwrites[OF _ _ has, of "[(''current_epoch'', PInt 10)]" "PInt 10"]
    by (simp add: update_training_status_field update_conv')
  have "get_field ''total_epochs'' ?m2 = get_field ''total_epochs'' ?m1"
    by (rule update_training_status_untouched) simp_all
  with w have t: "get_field ''total_epochs'' ?m2 = Some (PInt 5)"
    by (simp add: epochs_within_def)
  show ?thesis
    unfolding r by (simp add: epochs_in_order_def c t)
qed

text \<open>
  Claim C8, amended. The code checks nothing, so the invariant is the callers' to keep: after
  a session start with a total that is not negative (and a batch size other than zero),
  followed by any \<open>add_log\<close> and \<open>finish_training_session\<close> calls and by
  \<open>update_training_status\<close> calls that pass no \<open>total_epochs\<close> and pass as
  \<open>current_epoch\<close> only integers from 0 to the total, both counters are integers that are
  not negative and the current epoch does not exceed the total, whether or not a call raised.
\<close>

theorem epochs_in_order_for_respecting_callers:
  assumes "0 \<le> total_epochs" and "batch_size \<noteq> 0" and "list_all (epoch_call total_epochs) calls"
  shows "epochs_in_order
           (snd (run (Start model_name total_epochs dataset_size batch_size t now1 now2 # calls) m))"
proof -
  have "epochs_within total_epochs
          (snd (run calls
             (snd (start_training_session model_name total_epochs dataset_size batch_size t now1 now2 m))))"
    by (rule epochs_within_run[OF epochs_within_start[OF assms(1,2)] assms(3)])
  then show ?thesis
    by (simp only: run_Cons perform.simps snd_conv epochs_within_in_order)
qed

theorem epochs_in_order_for_respecting_callers_witness:
  "(0::int) \<le> 5 \<and> (32::int) \<noteq> 0
   \<and> list_all (epoch_call 5)
        [Update (PStr ''training'') [(''current_epoch'', PInt 1), (''current_step'', PInt 0)] ''t3'' ''t4'',
         AddLog (PStr ''Starting epoch 1/5'') (PStr ''info'') ''t5'',
         Finish ''t6'' ''t7'' ''t8'']
   \<and> epochs_in_order
        (snd (run (Start ''demo'' 5 1000 32 0 ''t1'' ''t2'' #
                   [Update (PStr ''training'') [(''current_epoch'', PInt 1), (''current_step'', PInt 0)] ''t3'' ''t4'',
                    AddLog (PStr ''Starting epoch 1/5'') (PStr ''info'') ''t5'',
                    Finish ''t6'' ''t7'' ''t8''])
               init_monitor))"
proof -
  have h: "(0::int) \<le> 5" "(32::int) \<noteq> 0"
    "list_all (epoch_call 5)
        [Update (PStr ''training'') [(''current_epoch'', PInt 1), (''current_step'', PInt 0)] ''t3'' ''t4'',
         AddLog (PStr ''Starting epoch 1/5'') (PStr ''info'') ''t5'',
         Finish ''t6'' ''t7'' ''t8'']"
    by (simp_all add: epoch_kwargs_def)
  from epochs_in_order_for_respecting_callers[OF h, of "''demo''" 1000 0 "''t1''" "''t2''" init_monitor] h show ?thesis by blast
qed

end
